theory Spec2Isabelle
  imports Complex_Main "HOL-Library.Multiset" "HOL-Library.Word"
begin

section \<open>Python values\<close>

text \<open>
  A Python \<open>str\<close> is a sequence of Unicode code points, and \<open>len\<close>, slicing and
  \<open>startswith\<close> count code points. A string is therefore modelled as the list of its code
  points; \<open>u\<close> turns an ASCII literal into such a list.
\<close>

type_synonym ustring = "nat list"

type_synonym byte = "8 word"

definition u :: "string \<Rightarrow> ustring" where
  "u s = map of_char s"

text \<open>
  \<open>str.isspace\<close> for one character: the white-space code points of the Unicode database
  (TAB..CR, FS..US, SPACE, NEL, NBSP and the space separators).
\<close>

definition isspace_ch :: "nat \<Rightarrow> bool" where
  "isspace_ch c \<longleftrightarrow>
     (9 \<le> c \<and> c \<le> 13) \<or> (28 \<le> c \<and> c \<le> 32) \<or> c = 133 \<or> c = 160 \<or> c = 5760 \<or>
     (8192 \<le> c \<and> c \<le> 8202) \<or> c = 8232 \<or> c = 8233 \<or> c = 8239 \<or> c = 8287 \<or> c = 12288"

text \<open>\<open>s.strip()\<close>: white space removed at both ends.\<close>

definition strip :: "ustring \<Rightarrow> ustring" where
  "strip s = rev (dropWhile isspace_ch (rev (dropWhile isspace_ch s)))"

text \<open>\<open>s.split(sep)\<close> for a one-character separator: never the empty list.\<close>

fun split_on :: "nat \<Rightarrow> ustring \<Rightarrow> ustring list" where
  "split_on sep [] = [[]]"
| "split_on sep (c # cs) =
     (if c = sep then [] # split_on sep cs
      else (case split_on sep cs of
              [] \<Rightarrow> [[c]]
            | l # ls \<Rightarrow> (c # l) # ls))"

text \<open>\<open>s.startswith(p)\<close>.\<close>

definition startswith :: "ustring \<Rightarrow> ustring \<Rightarrow> bool" where
  "startswith s p \<longleftrightarrow> take (length p) s = p"

text \<open>
  The case properties of a character. For ASCII they are written out; beyond ASCII they are
  the tables of the Unicode database, which the program takes from the Python runtime: they
  are a parameter of the model.
\<close>

record ucd =
  ext_upper :: "nat \<Rightarrow> bool"
  ext_lower :: "nat \<Rightarrow> bool"
  ext_title :: "nat \<Rightarrow> bool"

definition ch_isupper :: "ucd \<Rightarrow> nat \<Rightarrow> bool" where
  "ch_isupper U c = (if c < 128 then 65 \<le> c \<and> c \<le> 90 else ext_upper U c)"

definition ch_islower :: "ucd \<Rightarrow> nat \<Rightarrow> bool" where
  "ch_islower U c = (if c < 128 then 97 \<le> c \<and> c \<le> 122 else ext_lower U c)"

definition ch_istitle :: "ucd \<Rightarrow> nat \<Rightarrow> bool" where
  "ch_istitle U c = (if c < 128 then False else ext_title U c)"

text \<open>
  \<open>s.isupper()\<close>: no character of \<open>s\<close> is lower case or title case, and at least one is
  upper case.
\<close>

definition isupper :: "ucd \<Rightarrow> ustring \<Rightarrow> bool" where
  "isupper U s \<longleftrightarrow>
     \<not> list_ex (\<lambda>c. ch_islower U c \<or> ch_istitle U c) s \<and> list_ex (ch_isupper U) s"

text \<open>\<open>s.count('  ')\<close>: the occurrences of two spaces, not overlapping, from the left.\<close>

fun count_double_space :: "ustring \<Rightarrow> nat" where
  "count_double_space (a # b # r) =
     (if a = 32 \<and> b = 32 then Suc (count_double_space r) else count_double_space (b # r))"
| "count_double_space _ = 0"

section \<open>The text structure analyzer\<close>

text \<open>
  \<open>analyze_text_structure\<close> (serve.py, lines 158 to 194). Each bucket holds dictionaries
  \<open>{'line': i+1, 'text': line}\<close>, here the record \<open>entry\<close>.
\<close>

record entry =
  line_no :: nat
  line_text :: ustring

record structure_report =
  headings :: "entry list"
  lists' :: "entry list"
  paragraphs :: "entry list"
  tables :: "entry list"
  code_blocks :: "entry list"

definition empty_structure :: structure_report where
  "empty_structure =
     \<lparr>headings = [], lists' = [], paragraphs = [], tables = [], code_blocks = []\<rparr>"

text \<open>The conditions of the \<open>if\<close>/\<open>elif\<close> chain, lines 175, 179, 183 and 187.\<close>

definition heading_rule :: "ucd \<Rightarrow> ustring \<Rightarrow> bool" where
  "heading_rule U line \<longleftrightarrow> startswith line [35] \<or> (isupper U line \<and> length line < 100)"

definition list_prefixes :: "ustring list" where
  "list_prefixes = [[8226], [45], [42], [49, 46], [50, 46], [51, 46]]"

definition list_rule :: "ustring \<Rightarrow> bool" where
  "list_rule line \<longleftrightarrow> list_ex (startswith line) list_prefixes"

definition code_chars :: "nat list" where
  "code_chars = [123, 125, 40, 41, 59, 61]"

definition code_rule :: "ustring \<Rightarrow> bool" where
  "code_rule line \<longleftrightarrow> list_ex (\<lambda>ch. ch \<in> set line) code_chars"

definition table_rule :: "ustring \<Rightarrow> bool" where
  "table_rule line \<longleftrightarrow> 9 \<in> set line \<or> count_double_space line > 3"

text \<open>The body of the \<open>for\<close> loop, for the line \<open>raw\<close> at index \<open>i\<close>.\<close>

definition loop_body :: "ucd \<Rightarrow> nat \<Rightarrow> ustring \<Rightarrow> structure_report \<Rightarrow> structure_report" where
  "loop_body U i raw st =
     (let line = strip raw in
      if line = [] then st
      else if heading_rule U line then
        st\<lparr>headings := headings st @ [\<lparr>line_no = i + 1, line_text = line\<rparr>]\<rparr>
      else if list_rule line then
        st\<lparr>lists' := lists' st @ [\<lparr>line_no = i + 1, line_text = line\<rparr>]\<rparr>
      else if code_rule line then
        st\<lparr>code_blocks := code_blocks st @ [\<lparr>line_no = i + 1, line_text = line\<rparr>]\<rparr>
      else if table_rule line then
        st\<lparr>tables := tables st @ [\<lparr>line_no = i + 1, line_text = line\<rparr>]\<rparr>
      else
        st\<lparr>paragraphs := paragraphs st @ [\<lparr>line_no = i + 1, line_text = line\<rparr>]\<rparr>)"

fun analyze_loop :: "ucd \<Rightarrow> nat \<Rightarrow> ustring list \<Rightarrow> structure_report \<Rightarrow> structure_report" where
  "analyze_loop U i [] st = st"
| "analyze_loop U i (raw # rest) st = analyze_loop U (i + 1) rest (loop_body U i raw st)"

definition analyze_text_structure :: "ucd \<Rightarrow> ustring \<Rightarrow> structure_report" where
  "analyze_text_structure U text' = analyze_loop U 0 (split_on 10 text') empty_structure"

text \<open>
  The reading of the rules as a classifier: the bucket of a non-blank, trimmed line is the
  one of the first rule that matches it.
\<close>

datatype bucket = Heading | ListItem | CodeLike | TableLike | Paragraph

definition first_match :: "ucd \<Rightarrow> ustring \<Rightarrow> bucket" where
  "first_match U line =
     (if heading_rule U line then Heading
      else if list_rule line then ListItem
      else if code_rule line then CodeLike
      else if table_rule line then TableLike
      else Paragraph)"

definition bucket_of :: "bucket \<Rightarrow> structure_report \<Rightarrow> entry list" where
  "bucket_of b st =
     (case b of Heading \<Rightarrow> headings st | ListItem \<Rightarrow> lists' st | CodeLike \<Rightarrow> code_blocks st
      | TableLike \<Rightarrow> tables st | Paragraph \<Rightarrow> paragraphs st)"

text \<open>The entries that the lines \<open>ls\<close>, numbered from \<open>i\<close>, contribute to the bucket \<open>b\<close>.\<close>

fun entries_of :: "ucd \<Rightarrow> bucket \<Rightarrow> nat \<Rightarrow> ustring list \<Rightarrow> entry list" where
  "entries_of U b i [] = []"
| "entries_of U b i (raw # rest) =
     (if strip raw \<noteq> [] \<and> first_match U (strip raw) = b
      then \<lparr>line_no = i + 1, line_text = strip raw\<rparr> # entries_of U b (i + 1) rest
      else entries_of U b (i + 1) rest)"

text \<open>All entries that the lines \<open>ls\<close>, numbered from \<open>i\<close>, contribute, as a multiset.\<close>

definition all_buckets :: "ucd \<Rightarrow> nat \<Rightarrow> ustring list \<Rightarrow> entry multiset" where
  "all_buckets U i ls =
     mset (entries_of U Heading i ls) + mset (entries_of U ListItem i ls)
     + mset (entries_of U CodeLike i ls) + mset (entries_of U TableLike i ls)
     + mset (entries_of U Paragraph i ls)"

text \<open>The case tables with no cased character beyond ASCII, for running the model.\<close>

definition ascii_ucd :: ucd where
  "ascii_ucd = \<lparr>ext_upper = (\<lambda>_. False), ext_lower = (\<lambda>_. False), ext_title = (\<lambda>_. False)\<rparr>"

section \<open>Exceptions and the UTF-8 encoding\<close>

text \<open>
  A call that can raise returns a sum: \<open>Inl\<close> the exception, \<open>Inr\<close> the value.
  \<open>LibraryError\<close> stands for what a library call raises, with its message.
\<close>

datatype exn =
    AttributeError
  | TypeError
  | KeyError
  | IndexError
  | UnicodeEncodeError
  | LibraryError ustring

text \<open>
  \<open>s.encode()\<close>: the UTF-8 encoding of a string. It raises \<open>UnicodeEncodeError\<close> when the
  string holds a surrogate code point (U+D800 to U+DFFF), which a \<open>str\<close> may hold, for
  example one decoded from the JSON escape \<open>\ud800\<close>. A number from 1114112 on is no code
  point and does not occur in a \<open>str\<close>.
\<close>

definition utf8_encodable_ch :: "nat \<Rightarrow> bool" where
  "utf8_encodable_ch c \<longleftrightarrow> c < 55296 \<or> (57343 < c \<and> c < 1114112)"

definition utf8_bytes :: "nat \<Rightarrow> byte list" where
  "utf8_bytes c =
     (if c < 128 then [of_nat c]
      else if c < 2048 then [of_nat (192 + c div 64), of_nat (128 + c mod 64)]
      else if c < 65536 then
        [of_nat (224 + c div 4096), of_nat (128 + c div 64 mod 64), of_nat (128 + c mod 64)]
      else
        [of_nat (240 + c div 262144), of_nat (128 + c div 4096 mod 64),
         of_nat (128 + c div 64 mod 64), of_nat (128 + c mod 64)])"

definition str_encode :: "ustring \<Rightarrow> exn + byte list" where
  "str_encode s =
     (if list_all utf8_encodable_ch s then Inr (concat (map utf8_bytes s))
      else Inl UnicodeEncodeError)"

section \<open>Session state\<close>

text \<open>
  \<open>st.session_state\<close> is a dictionary; a key that is absent is \<open>None\<close> here. Only the keys
  that the modelled code reads or writes are fields.
\<close>

record share_record =
  sr_text :: ustring
  sr_language :: ustring
  sr_timestamp :: ustring

record history_item =
  hi_timestamp :: ustring
  hi_text :: ustring
  hi_language :: ustring
  hi_filename :: ustring
  hi_processing_time :: real
  hi_full_text :: ustring

record session =
  ocr_result :: "ustring option"
  ocr_language :: "ustring option"
  ocr_language_code :: "ustring option"
  processing_time :: "real option"
  share_url :: "ustring option"
  share_id :: "ustring option"
  shared_results :: "(ustring \<rightharpoonup> share_record) option"
  ocr_history :: "history_item list option"

definition empty_session :: session where
  "empty_session =
     \<lparr>ocr_result = None, ocr_language = None, ocr_language_code = None, processing_time = None,
      share_url = None, share_id = None, shared_results = None, ocr_history = None\<rparr>"

section \<open>History\<close>

text \<open>
  \<open>add_to_history\<close> (lines 138 to 156). \<open>now\<close> is the value of
  \<open>datetime.now().strftime("%Y-%m-%d %H:%M:%S")\<close> at the call.
\<close>

definition make_history_item ::
    "ustring \<Rightarrow> ustring \<Rightarrow> ustring \<Rightarrow> ustring \<Rightarrow> real \<Rightarrow> history_item" where
  "make_history_item now text' language filename ptime =
     \<lparr>hi_timestamp = now,
      hi_text = (if length text' > 200 then take 200 text' @ u ''...'' else text'),
      hi_language = language,
      hi_filename = filename,
      hi_processing_time = ptime,
      hi_full_text = text'\<rparr>"

definition add_to_history ::
    "ustring \<Rightarrow> ustring \<Rightarrow> ustring \<Rightarrow> ustring \<Rightarrow> real \<Rightarrow> session \<Rightarrow> session" where
  "add_to_history now text' language filename ptime s =
     (let h0 = (case ocr_history s of None \<Rightarrow> [] | Some h \<Rightarrow> h);
          h1 = make_history_item now text' language filename ptime # h0
      in if length h1 > 20 then s\<lparr>ocr_history := Some (take 20 h1)\<rparr>
         else s\<lparr>ocr_history := Some h1\<rparr>)"

text \<open>One call of \<open>add_to_history\<close>: the clock's reading and the four arguments.\<close>

record history_call =
  hc_now :: ustring
  hc_text :: ustring
  hc_language :: ustring
  hc_filename :: ustring
  hc_processing_time :: real

definition item_of_call :: "history_call \<Rightarrow> history_item" where
  "item_of_call c =
     make_history_item (hc_now c) (hc_text c) (hc_language c) (hc_filename c)
       (hc_processing_time c)"

text \<open>A sequence of calls, the first of the list first.\<close>

fun add_all_to_history :: "history_call list \<Rightarrow> session \<Rightarrow> session" where
  "add_all_to_history [] s = s"
| "add_all_to_history (c # cs) s =
     add_all_to_history cs
       (add_to_history (hc_now c) (hc_text c) (hc_language c) (hc_filename c)
          (hc_processing_time c) s)"

definition history_list :: "session \<Rightarrow> history_item list" where
  "history_list s = (case ocr_history s of None \<Rightarrow> [] | Some h \<Rightarrow> h)"

section \<open>Shared results\<close>

text \<open>\<open>str(n)\<close> for an integer: its decimal digits, with a minus sign when negative.\<close>

function digits :: "nat \<Rightarrow> ustring" where
  "digits n = (if n < 10 then [48 + n] else digits (n div 10) @ [48 + n mod 10])"
  by pat_completeness auto
termination
  by (relation "measure id") auto

declare digits.simps [simp del]

definition str_int :: "int \<Rightarrow> ustring" where
  "str_int n = (if n < 0 then 45 # digits (nat (- n)) else digits (nat n))"

text \<open>
  \<open>generate_shareable_link\<close> (lines 110 to 130). Its parameters beyond the arguments of the
  source are what it reads from its environment:
  \<^item> \<open>md5_hexdigest b\<close> is \<open>hashlib.md5(b).hexdigest()\<close>, the hexadecimal MD5 digest of the
    bytes \<open>b\<close>, a function of the Python library;
  \<^item> \<open>base_url_path\<close> is the value of \<open>st.get_option("server.baseUrlPath")\<close>;
  \<^item> \<open>now\<close> is the value of \<open>int(time.time())\<close>.
  The call raises when \<open>encode\<close> does, on line 113, before anything is stored. Otherwise
  the result is the returned pair \<open>(share_url, share_id)\<close> and the session after the call.
\<close>

definition default_base_url :: ustring where
  "default_base_url = u ''http://localhost:8501''"

definition generate_shareable_link ::
    "(byte list \<Rightarrow> ustring) \<Rightarrow> ustring option \<Rightarrow> int \<Rightarrow> ustring \<Rightarrow> ustring \<Rightarrow> session
     \<Rightarrow> exn + ((ustring \<times> ustring) \<times> session)" where
  "generate_shareable_link md5_hexdigest base_url_path now text' language s =
     (let timestamp = str_int now in
      case str_encode (text' @ language @ timestamp) of
        Inl e \<Rightarrow> Inl e
      | Inr encoded \<Rightarrow>
     (let content_hash = take 8 (md5_hexdigest encoded);
          share_id = timestamp @ u ''_'' @ content_hash;
          results = (case shared_results s of None \<Rightarrow> Map.empty | Some m \<Rightarrow> m);
          s' = s\<lparr>shared_results :=
                  Some (results(share_id \<mapsto>
                    \<lparr>sr_text = text', sr_language = language, sr_timestamp = timestamp\<rparr>))\<rparr>;
          base_url = (case base_url_path of
                        None \<Rightarrow> default_base_url
                      | Some b \<Rightarrow> if b = [] then default_base_url else b);
          share_url = base_url @ u ''?share='' @ share_id
      in Inr ((share_url, share_id), s')))"

text \<open>\<open>get_shared_result\<close> (lines 132 to 136).\<close>

definition get_shared_result :: "ustring \<Rightarrow> session \<Rightarrow> share_record option" where
  "get_shared_result sid s =
     (case shared_results s of
        None \<Rightarrow> None
      | Some m \<Rightarrow> (case m sid of Some r \<Rightarrow> Some r | None \<Rightarrow> None))"

text \<open>
  A sequence of calls of \<open>generate_shareable_link\<close>, each with the clock's reading, the text
  and the language: the identifiers returned, in order, and the session at the end. A call
  that raises returns no identifier and leaves the session as it was.
\<close>

fun share_all ::
    "(byte list \<Rightarrow> ustring) \<Rightarrow> ustring option \<Rightarrow> (int \<times> ustring \<times> ustring) list \<Rightarrow> session
     \<Rightarrow> ustring list \<times> session" where
  "share_all md5_hexdigest base_url_path [] s = ([], s)"
| "share_all md5_hexdigest base_url_path ((now, text', language) # cs) s =
     (case generate_shareable_link md5_hexdigest base_url_path now text' language s of
        Inl e \<Rightarrow> share_all md5_hexdigest base_url_path cs s
      | Inr ((url, sid), s') \<Rightarrow>
          (case share_all md5_hexdigest base_url_path cs s' of
             (sids, s'') \<Rightarrow> (sid # sids, s'')))"

section \<open>The language catalog\<close>

text \<open>
  The dictionary \<open>languages\<close> (lines 331 to 397), in the order of the source, which is the
  order of \<open>list(languages.keys())\<close>; the select box starts at index 0.
\<close>

definition languages :: "(ustring \<times> ustring) list" where
  "languages =
     [(u ''English'', u ''eng''), (u ''French'', u ''fra''), (u ''Spanish'', u ''spa''),
      (u ''German'', u ''deu''), (u ''Italian'', u ''ita''), (u ''Portuguese'', u ''por''),
      (u ''Dutch'', u ''nld''), (u ''Russian'', u ''rus''),
      (u ''Chinese (Simplified)'', u ''chs''), (u ''Japanese'', u ''jpn''),
      (u ''Korean'', u ''kor''), (u ''Arabic'', u ''ara''), (u ''Turkish'', u ''tur''),
      (u ''Polish'', u ''pol''), (u ''Romanian'', u ''ron''), (u ''Ukrainian'', u ''ukr''),
      (u ''Vietnamese'', u ''vie''), (u ''Czech'', u ''ces''), (u ''Greek'', u ''ell''),
      (u ''Bulgarian'', u ''bul''), (u ''Croatian'', u ''hrv''),
      (u ''Hungarian'', u ''hun''), (u ''Slovak'', u ''slk''), (u ''Slovenian'', u ''slv''),
      (u ''Swedish'', u ''swe''), (u ''Finnish'', u ''fin''), (u ''Danish'', u ''dan''),
      (u ''Norwegian'', u ''nor''), (u ''Hebrew'', u ''heb''), (u ''Hindi'', u ''hin''),
      (u ''Malay'', u ''msa''), (u ''Thai'', u ''tha''), (u ''Indonesian'', u ''ind''),
      (u ''Filipino'', u ''fil''), (u ''Serbian (Latin)'', u ''srp''),
      (u ''Serbian (Cyrillic)'', u ''srp-cyr''), (u ''Albanian'', u ''sqi''),
      (u ''Estonian'', u ''est''), (u ''Latvian'', u ''lav''), (u ''Lithuanian'', u ''lit''),
      (u ''Macedonian'', u ''mkd''), (u ''Georgian'', u ''kat''),
      (u ''Armenian'', u ''hye''), (u ''Azerbaijani'', u ''aze''), (u ''Kazakh'', u ''kaz''),
      (u ''Uzbek'', u ''uzb''), (u ''Mongolian'', u ''mon''), (u ''Persian'', u ''fas''),
      (u ''Pashto'', u ''pus''), (u ''Urdu'', u ''urd''), (u ''Bengali'', u ''ben''),
      (u ''Tamil'', u ''tam''), (u ''Telugu'', u ''tel''), (u ''Kannada'', u ''kan''),
      (u ''Malayalam'', u ''mal''), (u ''Marathi'', u ''mar''), (u ''Gujarati'', u ''guj''),
      (u ''Punjabi'', u ''pan''), (u ''Sinhala'', u ''sin''), (u ''Nepali'', u ''nep''),
      (u ''Burmese'', u ''mya''), (u ''Khmer'', u ''khm''), (u ''Lao'', u ''lao''),
      (u ''Tibetan'', u ''bod''), (u ''Other'', u ''eng'')]"

definition language_names :: "ustring list" where
  "language_names = map fst languages"

definition default_selected_lang :: ustring where
  "default_selected_lang = language_names ! 0"

section \<open>The environment of the page\<close>

text \<open>
  What the page takes from its libraries and from the outside is a parameter of the model.
\<close>

text \<open>
  A value decoded from JSON by \<open>response.json()\<close>. An object is the list of the items of
  the dictionary, each key once; a number is the real it stands for.
\<close>

datatype json =
    JNull
  | JBool bool
  | JNumber real
  | JString ustring
  | JArray "json list"
  | JObject "(ustring \<times> json) list"

text \<open>The truth value of a Python object in a condition.\<close>

fun truthy :: "json \<Rightarrow> bool" where
  "truthy JNull = False"
| "truthy (JBool b) = b"
| "truthy (JNumber x) = (x \<noteq> 0)"
| "truthy (JString s) = (s \<noteq> [])"
| "truthy (JArray xs) = (xs \<noteq> [])"
| "truthy (JObject kv) = (kv \<noteq> [])"

text \<open>\<open>d.get(key, dflt)\<close> on a dictionary.\<close>

definition dict_get :: "(ustring \<times> json) list \<Rightarrow> ustring \<Rightarrow> json \<Rightarrow> json" where
  "dict_get kv key dflt = (case map_of kv key of Some v \<Rightarrow> v | None \<Rightarrow> dflt)"

text \<open>\<open>x.get(key, dflt)\<close> on any value: only a dictionary has the method.\<close>

definition json_get :: "json \<Rightarrow> ustring \<Rightarrow> json \<Rightarrow> exn + json" where
  "json_get x key dflt =
     (case x of JObject kv \<Rightarrow> Inr (dict_get kv key dflt) | _ \<Rightarrow> Inl AttributeError)"

text \<open>\<open>x[0]\<close>.\<close>

fun subscript0 :: "json \<Rightarrow> exn + json" where
  "subscript0 (JArray (x # xs)) = Inr x"
| "subscript0 (JArray []) = Inl IndexError"
| "subscript0 (JString (c # cs)) = Inr (JString [c])"
| "subscript0 (JString []) = Inl IndexError"
| "subscript0 (JObject kv) = Inl KeyError"
| "subscript0 _ = Inl TypeError"

text \<open>\<open>x.strip()\<close> on any value: only a string has the method.\<close>

definition json_strip :: "json \<Rightarrow> exn + ustring" where
  "json_strip x = (case x of JString s \<Rightarrow> Inr (strip s) | _ \<Rightarrow> Inl AttributeError)"

text \<open>The arguments of \<open>image.save(buffer, format="PNG", optimize=True, quality=70)\<close>.\<close>

record save_args =
  sa_format :: ustring
  sa_optimize :: bool
  sa_quality :: int

definition png_args :: save_args where
  "png_args = \<lparr>sa_format = u ''PNG'', sa_optimize = True, sa_quality = 70\<rparr>"

text \<open>The request that \<open>ocr_space_file\<close> posts (lines 447 to 456).\<close>

record ocr_request =
  rq_url :: ustring
  rq_isOverlayRequired :: bool
  rq_apikey :: ustring
  rq_language :: ustring
  rq_OCREngine :: int
  rq_file_name :: ustring
  rq_file_bytes :: "byte list"
  rq_file_type :: ustring

text \<open>The preprocessing calls of the image library.\<close>

datatype transform =
    Rotate int bool
  | Brightness real
  | Contrast real
  | Sharpness real

text \<open>
  \<^item> \<open>pil_rotate im a e\<close> is \<open>im.rotate(a, expand=e)\<close>; \<open>pil_brightness im f\<close> is
    \<open>ImageEnhance.Brightness(im).enhance(f)\<close>, and so for contrast and sharpness;
  \<^item> \<open>pil_size im\<close> is \<open>(im.width, im.height)\<close>, \<open>pil_resize im (w, h)\<close> is
    \<open>im.resize((w, h))\<close>;
  \<^item> \<open>pil_save im args\<close> is the content of the buffer after \<open>im.save(buffer, ...)\<close>;
  \<^item> \<open>requests_post rq\<close> is \<open>requests.post(...).json()\<close>, the answer of the OCR service;
  \<^item> \<open>elapsed\<close> is \<open>round(time.time() - start_time, 2)\<close>, \<open>now_str\<close> the formatted local
    time, \<open>unix_time\<close> is \<open>int(time.time())\<close>;
  \<^item> \<open>md5_hex\<close> and \<open>base_url_option\<close> are the parameters of \<open>generate_shareable_link\<close>;
  \<^item> \<open>str_exn e\<close> is \<open>str(e)\<close>; \<open>str_json v\<close> and \<open>str_float x\<close> are the texts that an
    f-string gives for a value that is not a string and for a float.
  The sliders and the clock give floats; the model takes them as the reals they stand for,
  and the comparison \<open>!= 1.0\<close> as disequality.
\<close>

record 'img env =
  pil_rotate :: "'img \<Rightarrow> int \<Rightarrow> bool \<Rightarrow> exn + 'img"
  pil_brightness :: "'img \<Rightarrow> real \<Rightarrow> exn + 'img"
  pil_contrast :: "'img \<Rightarrow> real \<Rightarrow> exn + 'img"
  pil_sharpness :: "'img \<Rightarrow> real \<Rightarrow> exn + 'img"
  pil_size :: "'img \<Rightarrow> nat \<times> nat"
  pil_resize :: "'img \<Rightarrow> nat \<times> nat \<Rightarrow> exn + 'img"
  pil_save :: "'img \<Rightarrow> save_args \<Rightarrow> exn + byte list"
  requests_post :: "ocr_request \<Rightarrow> exn + json"
  elapsed :: real
  now_str :: ustring
  unix_time :: int
  md5_hex :: "byte list \<Rightarrow> ustring"
  base_url_option :: "ustring option"
  str_exn :: "exn \<Rightarrow> ustring"
  str_json :: "json \<Rightarrow> ustring"
  str_float :: "real \<Rightarrow> ustring"

text \<open>What a run does that can be seen from outside, in order.\<close>

datatype 'img event =
    PilTransform transform 'img
  | PilSave 'img save_args
  | PilResize 'img "nat \<times> nat"
  | HttpPost ocr_request
  | StError ustring
  | StInfo ustring
  | StWarning ustring
  | StSuccess ustring

section \<open>Preprocessing\<close>

text \<open>
  The preprocessing block (lines 462 to 476), on the opened image. An exception here is not
  caught. The result is the library calls made and the image, or the exception.
\<close>

definition preprocess ::
    "'img env \<Rightarrow> int \<Rightarrow> real \<Rightarrow> real \<Rightarrow> real \<Rightarrow> 'img \<Rightarrow> 'img event list \<times> (exn + 'img)" where
  "preprocess E rotate_angle brightness contrast sharpness img =
     (let (ev1, r1) =
        (if rotate_angle \<noteq> 0
         then ([PilTransform (Rotate (- rotate_angle) True) img],
               pil_rotate E img (- rotate_angle) True)
         else ([], Inr img))
      in case r1 of
        Inl e \<Rightarrow> (ev1, Inl e)
      | Inr image1 \<Rightarrow>
     (let (ev2, r2) =
        (if brightness \<noteq> 1
         then ([PilTransform (Brightness brightness) image1], pil_brightness E image1 brightness)
         else ([], Inr image1))
      in case r2 of
        Inl e \<Rightarrow> (ev1 @ ev2, Inl e)
      | Inr image2 \<Rightarrow>
     (let (ev3, r3) =
        (if contrast \<noteq> 1
         then ([PilTransform (Contrast contrast) image2], pil_contrast E image2 contrast)
         else ([], Inr image2))
      in case r3 of
        Inl e \<Rightarrow> (ev1 @ ev2 @ ev3, Inl e)
      | Inr image3 \<Rightarrow>
     (let (ev4, r4) =
        (if sharpness \<noteq> 1
         then ([PilTransform (Sharpness sharpness) image3], pil_sharpness E image3 sharpness)
         else ([], Inr image3))
      in (ev1 @ ev2 @ ev3 @ ev4, r4)))))"

text \<open>
  The reading of the block as a plan: the transforms to apply, in order, and their
  application one after the other, stopping at the first exception.
\<close>

definition transform_plan :: "int \<Rightarrow> real \<Rightarrow> real \<Rightarrow> real \<Rightarrow> transform list" where
  "transform_plan rotate_angle brightness contrast sharpness =
     (if rotate_angle \<noteq> 0 then [Rotate (- rotate_angle) True] else [])
     @ (if brightness \<noteq> 1 then [Brightness brightness] else [])
     @ (if contrast \<noteq> 1 then [Contrast contrast] else [])
     @ (if sharpness \<noteq> 1 then [Sharpness sharpness] else [])"

fun apply_transform :: "'img env \<Rightarrow> transform \<Rightarrow> 'img \<Rightarrow> exn + 'img" where
  "apply_transform E (Rotate a e) im = pil_rotate E im a e"
| "apply_transform E (Brightness f) im = pil_brightness E im f"
| "apply_transform E (Contrast f) im = pil_contrast E im f"
| "apply_transform E (Sharpness f) im = pil_sharpness E im f"

fun apply_plan :: "'img env \<Rightarrow> transform list \<Rightarrow> 'img \<Rightarrow> 'img event list \<times> (exn + 'img)" where
  "apply_plan E [] im = ([], Inr im)"
| "apply_plan E (t # ts) im =
     (case apply_transform E t im of
        Inl e \<Rightarrow> ([PilTransform t im], Inl e)
      | Inr im' \<Rightarrow> (case apply_plan E ts im' of (ev, r) \<Rightarrow> (PilTransform t im # ev, r)))"

section \<open>Extracting the text\<close>

text \<open>\<open>ocr_space_file\<close> (lines 447 to 456), with the request it posts.\<close>

definition ocr_request_of :: "byte list \<Rightarrow> ustring \<Rightarrow> ustring \<Rightarrow> ocr_request" where
  "ocr_request_of file_bytes language_code api_key =
     \<lparr>rq_url = u ''https://api.ocr.space/parse/image'',
      rq_isOverlayRequired = False,
      rq_apikey = api_key,
      rq_language = language_code,
      rq_OCREngine = 2,
      rq_file_name = u ''image.png'',
      rq_file_bytes = file_bytes,
      rq_file_type = u ''image/png''\<rparr>"

definition ocr_space_file :: "'img env \<Rightarrow> byte list \<Rightarrow> ustring \<Rightarrow> ustring \<Rightarrow> exn + json" where
  "ocr_space_file E file_bytes language_code api_key =
     requests_post E (ocr_request_of file_bytes language_code api_key)"

text \<open>The texts shown to the user.\<close>

definition too_large_message :: ustring where
  "too_large_message =
     u ''Image is too large even after compression. Please upload a smaller image (under 1MB).''"

definition no_text_message :: ustring where
  "no_text_message = u ''No text found in the image.''"

definition processing_error_message :: "'img env \<Rightarrow> exn \<Rightarrow> ustring" where
  "processing_error_message E e = u ''Error processing image: '' @ str_exn E e"

definition processing_message :: "ustring \<Rightarrow> ustring \<Rightarrow> ustring" where
  "processing_message selected_lang language_code =
     [128269] @ u '' Processing with language: '' @ selected_lang
       @ u '' ('' @ language_code @ u '')''"

definition success_message :: "'img env \<Rightarrow> ustring \<Rightarrow> real \<Rightarrow> ustring" where
  "success_message E selected_lang ptime =
     [9989] @ u '' Text extracted successfully using '' @ selected_lang
       @ u '' language! (Time: '' @ str_float E ptime @ u ''s)''"

text \<open>A value in an f-string: a string as it is, another value by its \<open>str\<close>.\<close>

definition format_json :: "'img env \<Rightarrow> json \<Rightarrow> ustring" where
  "format_json E v = (case v of JString s \<Rightarrow> s | _ \<Rightarrow> str_json E v)"

text \<open>
  Lines 499 to 508: the image is saved as PNG; when the bytes exceed \<open>1024 * 1024\<close> it is
  resized to half its width and height and saved again. The result is the library calls made
  and \<open>file_bytes\<close>, or the exception.
\<close>

definition size_budget :: "'img env \<Rightarrow> 'img \<Rightarrow> 'img event list \<times> (exn + byte list)" where
  "size_budget E img =
     (case pil_save E img png_args of
        Inl e \<Rightarrow> ([PilSave img png_args], Inl e)
      | Inr file_bytes \<Rightarrow>
          if length file_bytes > 1024 * 1024 then
            (let half = (fst (pil_size E img) div 2, snd (pil_size E img) div 2) in
             case pil_resize E img half of
               Inl e \<Rightarrow> ([PilSave img png_args, PilResize img half], Inl e)
             | Inr image_resized \<Rightarrow>
                 ([PilSave img png_args, PilResize img half, PilSave image_resized png_args],
                  pil_save E image_resized png_args))
          else ([PilSave img png_args], Inr file_bytes))"

text \<open>
  Lines 526 to 541: the branch of a text that is not empty. The session is written and the
  history extended first; the share step, which comes next, may raise, and then the session
  stays as written so far, without \<open>share_url\<close> and \<open>share_id\<close>, and no success message
  is shown. The result is the exception or the messages shown, and the session.
\<close>

definition on_success ::
    "'img env \<Rightarrow> ustring \<Rightarrow> ustring \<Rightarrow> ustring \<Rightarrow> ustring \<Rightarrow> session
     \<Rightarrow> (exn + 'img event list) \<times> session" where
  "on_success E text' selected_lang language_code filename s =
     (let ptime = elapsed E;
          s1 = s\<lparr>ocr_result := Some text', ocr_language := Some selected_lang,
                 ocr_language_code := Some language_code, processing_time := Some ptime\<rparr>;
          s2 = add_to_history (now_str E) text' selected_lang filename ptime s1
      in case generate_shareable_link (md5_hex E) (base_url_option E) (unix_time E) text'
                selected_lang s2 of
           Inl e \<Rightarrow> (Inl e, s2)
         | Inr ((url, sid), s3) \<Rightarrow>
             (Inr [StSuccess (success_message E selected_lang ptime)],
              s3\<lparr>share_url := Some url, share_id := Some sid\<rparr>))"

text \<open>
  Lines 518 to 545: what is done with the answer \<open>result\<close> of the service. The result is
  the exception or the messages shown, and the session as it is then.
\<close>

definition handle_result ::
    "'img env \<Rightarrow> json \<Rightarrow> ustring \<Rightarrow> ustring \<Rightarrow> ustring \<Rightarrow> session
     \<Rightarrow> (exn + 'img event list) \<times> session" where
  "handle_result E result selected_lang language_code filename s =
     (case json_get result (u ''IsErroredOnProcessing'') JNull of
        Inl e \<Rightarrow> (Inl e, s)
      | Inr flag \<Rightarrow>
          if truthy flag then
            (case json_get result (u ''ErrorMessage'') (JString (u ''Unknown error'')) of
               Inl e \<Rightarrow> (Inl e, s)
             | Inr error_msg \<Rightarrow> (Inr [StError (u ''OCR Error: '' @ format_json E error_msg)], s))
          else
            (case json_get result (u ''ParsedResults'') (JArray []) of
               Inl e \<Rightarrow> (Inl e, s)
             | Inr parsed_results \<Rightarrow>
                 if truthy parsed_results then
                   (case subscript0 parsed_results of
                      Inl e \<Rightarrow> (Inl e, s)
                    | Inr first \<Rightarrow>
                        (case json_get first (u ''ParsedText'') (JString []) of
                           Inl e \<Rightarrow> (Inl e, s)
                         | Inr parsed_text \<Rightarrow>
                             (case json_strip parsed_text of
                                Inl e \<Rightarrow> (Inl e, s)
                              | Inr text' \<Rightarrow>
                                  if text' \<noteq> [] then
                                    on_success E text' selected_lang language_code filename s
                                  else (Inr [StWarning no_text_message], s))))
                 else (Inr [StWarning no_text_message], s)))"

text \<open>
  The handler of the button (lines 495 to 547), for the preprocessed image, the name of the
  uploaded file and the selected language: the events of the run and the session after it.
  An exception raised in the \<open>try\<close> block ends the run with the error message of line 547,
  and the session is as it was when the exception was raised.
\<close>

definition extract_text ::
    "'img env \<Rightarrow> 'img \<Rightarrow> ustring \<Rightarrow> ustring \<Rightarrow> session \<Rightarrow> 'img event list \<times> session" where
  "extract_text E img filename selected_lang s =
     (case size_budget E img of
        (ev1, Inl e) \<Rightarrow> (ev1 @ [StError (processing_error_message E e)], s)
      | (ev1, Inr file_bytes) \<Rightarrow>
          if length file_bytes > 1024 * 1024 then (ev1 @ [StError too_large_message], s)
          else
            (case map_of languages selected_lang of
               None \<Rightarrow> (ev1 @ [StError (processing_error_message E KeyError)], s)
             | Some language_code \<Rightarrow>
                 (let ev2 = ev1 @
                        [StInfo (processing_message selected_lang language_code),
                         HttpPost (ocr_request_of file_bytes language_code (u ''helloworld''))]
                  in case ocr_space_file E file_bytes language_code (u ''helloworld'') of
                       Inl e \<Rightarrow> (ev2 @ [StError (processing_error_message E e)], s)
                     | Inr result \<Rightarrow>
                         (case handle_result E result selected_lang language_code filename s of
                            (Inl e, s') \<Rightarrow> (ev2 @ [StError (processing_error_message E e)], s')
                          | (Inr ev3, s') \<Rightarrow> (ev2 @ ev3, s')))))"

text \<open>The events that are a call of \<open>resize\<close>.\<close>

fun is_resize :: "'img event \<Rightarrow> bool" where
  "is_resize (PilResize im sz) = True"
| "is_resize _ = False"

section \<open>Sample inputs\<close>

text \<open>Twenty-five calls of \<open>add_to_history\<close>, with the texts \<open>A\<close>, \<open>B\<close>, ... in this order.\<close>

definition sample_calls :: "history_call list" where
  "sample_calls =
     map (\<lambda>k. \<lparr>hc_now = u ''2024-01-01 00:00:00'', hc_text = [65 + k], hc_language = u ''English'',
               hc_filename = u ''a.png'', hc_processing_time = 1\<rparr>) [0..<25]"

text \<open>A stand-in for the digest function, for running the model.\<close>

definition fake_md5 :: "byte list \<Rightarrow> ustring" where
  "fake_md5 s = u ''d41d8cd98f00b204e9800998ecf8427e''"

text \<open>An environment for running the model: an image is its size, saved as one byte a pixel.\<close>

definition sample_env :: "(nat \<times> nat) env" where
  "sample_env =
     \<lparr>pil_rotate = (\<lambda>im a e. Inr (if a mod 180 = 0 then im else (snd im, fst im))),
      pil_brightness = (\<lambda>im f. Inr im),
      pil_contrast = (\<lambda>im f. Inr im),
      pil_sharpness = (\<lambda>im f. Inr im),
      pil_size = (\<lambda>im. im),
      pil_resize = (\<lambda>im sz. Inr sz),
      pil_save = (\<lambda>im args. Inr (replicate (fst im * snd im) 0)),
      requests_post = (\<lambda>rq. Inr (JObject [(u ''ParsedResults'', JArray [])])),
      elapsed = 3 / 2,
      now_str = u ''2024-01-01 00:00:00'',
      unix_time = 1700000000,
      md5_hex = fake_md5,
      base_url_option = None,
      str_exn = (\<lambda>e. u ''error''),
      str_json = (\<lambda>v. u ''value''),
      str_float = (\<lambda>x. u ''1.5'')\<rparr>"

definition bad_image_response :: json where
  "bad_image_response =
     JObject [(u ''IsErroredOnProcessing'', JBool True), (u ''ErrorMessage'', JString (u ''Bad image''))]"

text \<open>The sample environment with a service that reports an error, and with one that reads a text.\<close>

definition failing_env :: "(nat \<times> nat) env" where
  "failing_env = sample_env\<lparr>requests_post := (\<lambda>rq. Inr bad_image_response)\<rparr>"

definition reading_env :: "(nat \<times> nat) env" where
  "reading_env = sample_env\<lparr>requests_post := (\<lambda>rq. Inr (JObject
     [(u ''ParsedResults'', JArray [JObject [(u ''ParsedText'', JString (u '' Hi ''))]])]))\<rparr>"

text \<open>The sample environment with a service whose text is one surrogate code point.\<close>

definition surrogate_env :: "(nat \<times> nat) env" where
  "surrogate_env = sample_env\<lparr>requests_post := (\<lambda>rq. Inr (JObject
     [(u ''ParsedResults'', JArray [JObject [(u ''ParsedText'', JString [55296])]])]))\<rparr>"

section \<open>Properties of the analyzer\<close>

lemma bucket_of_loop_body:
  "bucket_of b (loop_body U i raw st) = bucket_of b st @ entries_of U b i [raw]"
  by (cases b) (simp_all add: loop_body_def first_match_def bucket_of_def Let_def)

lemma bucket_of_analyze_loop:
  "bucket_of b (analyze_loop U i ls st) = bucket_of b st @ entries_of U b i ls"
proof (induction ls arbitrary: i st)
  case Nil
  show ?case by simp
next
  case (Cons raw rest)
  have "bucket_of b (analyze_loop U i (raw # rest) st)
        = bucket_of b (loop_body U i raw st) @ entries_of U b (i + 1) rest"
    using Cons.IH by simp
  also have "\<dots> = bucket_of b st @ entries_of U b i [raw] @ entries_of U b (i + 1) rest"
    by (simp add: bucket_of_loop_body)
  also have "entries_of U b i [raw] @ entries_of U b (i + 1) rest = entries_of U b i (raw # rest)"
    by simp
  finally show ?case .
qed

lemma bucket_of_analyze:
  "bucket_of b (analyze_text_structure U text') = entries_of U b 0 (split_on 10 text')"
  by (simp add: analyze_text_structure_def bucket_of_analyze_loop)
     (simp add: bucket_of_def empty_structure_def split: bucket.splits)

lemma set_entries_of:
  "e \<in> set (entries_of U b i ls) \<longleftrightarrow>
     (\<exists>k < length ls. strip (ls ! k) \<noteq> [] \<and> first_match U (strip (ls ! k)) = b \<and>
        e = \<lparr>line_no = i + k + 1, line_text = strip (ls ! k)\<rparr>)"
proof (induction ls arbitrary: i)
  case Nil
  show ?case by simp
next
  case (Cons raw rest)
  have ex_Suc: "\<And>P. (\<exists>k < Suc (length rest). P k) \<longleftrightarrow> P 0 \<or> (\<exists>k < length rest. P (Suc k))"
    by (metis less_Suc_eq_0_disj)
  show ?case
    by (simp add: Cons.IH ex_Suc)
qed

lemma entry_in_bucket_iff:
  assumes "i < length (split_on 10 text')" and "strip (split_on 10 text' ! i) \<noteq> []"
  shows "\<lparr>line_no = i + 1, line_text = strip (split_on 10 text' ! i)\<rparr>
           \<in> set (bucket_of b (analyze_text_structure U text'))
         \<longleftrightarrow> first_match U (strip (split_on 10 text' ! i)) = b"
  using assms by (auto simp add: bucket_of_analyze set_entries_of)

lemma upt_0_Suc: "[0..<Suc n] = 0 # map Suc [0..<n]"
  by (simp add: upt_conv_Cons map_Suc_upt del: upt_Suc)

lemma nonblank_Cons:
  "map (\<lambda>k. \<lparr>line_no = i + k + 1, line_text = strip ((raw # rest) ! k)\<rparr>)
     (filter (\<lambda>k. strip ((raw # rest) ! k) \<noteq> []) [0..<length (raw # rest)])
   = (if strip raw \<noteq> [] then [\<lparr>line_no = i + 1, line_text = strip raw\<rparr>] else [])
     @ map (\<lambda>k. \<lparr>line_no = (i + 1) + k + 1, line_text = strip (rest ! k)\<rparr>)
         (filter (\<lambda>k. strip (rest ! k) \<noteq> []) [0..<length rest])"
  by (simp add: upt_0_Suc filter_map o_def del: upt_Suc)

lemma all_buckets_Cons:
  "all_buckets U i (raw # rest) =
     mset (if strip raw \<noteq> [] then [\<lparr>line_no = i + 1, line_text = strip raw\<rparr>] else [])
     + all_buckets U (i + 1) rest"
  by (cases "first_match U (strip raw)") (simp_all add: all_buckets_def)

lemma all_buckets_eq:
  "all_buckets U i ls
   = mset (map (\<lambda>k. \<lparr>line_no = i + k + 1, line_text = strip (ls ! k)\<rparr>)
        (filter (\<lambda>k. strip (ls ! k) \<noteq> []) [0..<length ls]))"
proof (induction ls arbitrary: i)
  case Nil
  show ?case by (simp add: all_buckets_def)
next
  case (Cons raw rest)
  show ?case
    unfolding nonblank_Cons all_buckets_Cons mset_append Cons.IH ..
qed

lemma bucket_of_simps:
  "bucket_of Heading st = headings st"
  "bucket_of ListItem st = lists' st"
  "bucket_of CodeLike st = code_blocks st"
  "bucket_of TableLike st = tables st"
  "bucket_of Paragraph st = paragraphs st"
  by (simp_all add: bucket_of_def)

lemma analyze_hash_title:
  "analyze_text_structure U (u ''# Title'') =
    \<lparr>headings = [\<lparr>line_no = 1, line_text = u ''# Title''\<rparr>], lists' = [], paragraphs = [],
     tables = [], code_blocks = []\<rparr>"
  by (simp add: analyze_text_structure_def u_def loop_body_def strip_def isspace_ch_def
        heading_rule_def startswith_def empty_structure_def)

lemma analyze_total_due:
  "analyze_text_structure U (u ''TOTAL DUE'') =
    \<lparr>headings = [\<lparr>line_no = 1, line_text = u ''TOTAL DUE''\<rparr>], lists' = [], paragraphs = [],
     tables = [], code_blocks = []\<rparr>"
  by (simp add: analyze_text_structure_def u_def loop_body_def strip_def isspace_ch_def
        heading_rule_def startswith_def empty_structure_def isupper_def ch_isupper_def
        ch_islower_def ch_istitle_def)

lemma analyze_numbered_code:
  "analyze_text_structure U (u ''1. x = 5;'') =
    \<lparr>headings = [], lists' = [\<lparr>line_no = 1, line_text = u ''1. x = 5;''\<rparr>], paragraphs = [],
     tables = [], code_blocks = []\<rparr>"
  by (simp add: analyze_text_structure_def u_def loop_body_def strip_def isspace_ch_def
        heading_rule_def startswith_def empty_structure_def isupper_def ch_isupper_def
        ch_islower_def ch_istitle_def list_rule_def list_prefixes_def)

text \<open>
  Claim C3. For every text and every non-blank line of it, the entry of that line (its 1-based
  number and its trimmed text) is in the bucket of the first rule that matches, in the order
  heading, list, code-like, table-like, paragraph, and in no other bucket. In particular the
  text \<open># Title\<close> yields one heading (and does not match the code-like rule), the text
  \<open>TOTAL DUE\<close> yields one heading, and \<open>1. x = 5;\<close> yields one list item although the
  code-like rule matches it too.
\<close>

theorem first_matching_rule_wins:
  "(\<forall>i < length (split_on 10 text'). strip (split_on 10 text' ! i) \<noteq> [] \<longrightarrow>
      (\<lparr>line_no = i + 1, line_text = strip (split_on 10 text' ! i)\<rparr>
          \<in> set (headings (analyze_text_structure U text'))
        \<longleftrightarrow> heading_rule U (strip (split_on 10 text' ! i))) \<and>
      (\<lparr>line_no = i + 1, line_text = strip (split_on 10 text' ! i)\<rparr>
          \<in> set (lists' (analyze_text_structure U text'))
        \<longleftrightarrow> \<not> heading_rule U (strip (split_on 10 text' ! i))
            \<and> list_rule (strip (split_on 10 text' ! i))) \<and>
      (\<lparr>line_no = i + 1, line_text = strip (split_on 10 text' ! i)\<rparr>
          \<in> set (code_blocks (analyze_text_structure U text'))
        \<longleftrightarrow> \<not> heading_rule U (strip (split_on 10 text' ! i))
            \<and> \<not> list_rule (strip (split_on 10 text' ! i))
            \<and> code_rule (strip (split_on 10 text' ! i))) \<and>
      (\<lparr>line_no = i + 1, line_text = strip (split_on 10 text' ! i)\<rparr>
          \<in> set (tables (analyze_text_structure U text'))
        \<longleftrightarrow> \<not> heading_rule U (strip (split_on 10 text' ! i))
            \<and> \<not> list_rule (strip (split_on 10 text' ! i))
            \<and> \<not> code_rule (strip (split_on 10 text' ! i))
            \<and> table_rule (strip (split_on 10 text' ! i))) \<and>
      (\<lparr>line_no = i + 1, line_text = strip (split_on 10 text' ! i)\<rparr>
          \<in> set (paragraphs (analyze_text_structure U text'))
        \<longleftrightarrow> \<not> heading_rule U (strip (split_on 10 text' ! i))
            \<and> \<not> list_rule (strip (split_on 10 text' ! i))
            \<and> \<not> code_rule (strip (split_on 10 text' ! i))
            \<and> \<not> table_rule (strip (split_on 10 text' ! i))))
   \<and> analyze_text_structure U (u ''# Title'') =
        \<lparr>headings = [\<lparr>line_no = 1, line_text = u ''# Title''\<rparr>], lists' = [],
         paragraphs = [], tables = [], code_blocks = []\<rparr>
   \<and> \<not> code_rule (u ''# Title'')
   \<and> analyze_text_structure U (u ''TOTAL DUE'') =
        \<lparr>headings = [\<lparr>line_no = 1, line_text = u ''TOTAL DUE''\<rparr>], lists' = [],
         paragraphs = [], tables = [], code_blocks = []\<rparr>
   \<and> analyze_text_structure U (u ''1. x = 5;'') =
        \<lparr>headings = [], lists' = [\<lparr>line_no = 1, line_text = u ''1. x = 5;''\<rparr>],
         paragraphs = [], tables = [], code_blocks = []\<rparr>
   \<and> code_rule (u ''1. x = 5;'')"
proof -
  have general: "\<forall>i < length (split_on 10 text'). strip (split_on 10 text' ! i) \<noteq> [] \<longrightarrow>
      (\<lparr>line_no = i + 1, line_text = strip (split_on 10 text' ! i)\<rparr>
          \<in> set (headings (analyze_text_structure U text'))
        \<longleftrightarrow> heading_rule U (strip (split_on 10 text' ! i))) \<and>
      (\<lparr>line_no = i + 1, line_text = strip (split_on 10 text' ! i)\<rparr>
          \<in> set (lists' (analyze_text_structure U text'))
        \<longleftrightarrow> \<not> heading_rule U (strip (split_on 10 text' ! i))
            \<and> list_rule (strip (split_on 10 text' ! i))) \<and>
      (\<lparr>line_no = i + 1, line_text = strip (split_on 10 text' ! i)\<rparr>
          \<in> set (code_blocks (analyze_text_structure U text'))
        \<longleftrightarrow> \<not> heading_rule U (strip (split_on 10 text' ! i))
            \<and> \<not> list_rule (strip (split_on 10 text' ! i))
            \<and> code_rule (strip (split_on 10 text' ! i))) \<and>
      (\<lparr>line_no = i + 1, line_text = strip (split_on 10 text' ! i)\<rparr>
          \<in> set (tables (analyze_text_structure U text'))
        \<longleftrightarrow> \<not> heading_rule U (strip (split_on 10 text' ! i))
            \<and> \<not> list_rule (strip (split_on 10 text' ! i))
            \<and> \<not> code_rule (strip (split_on 10 text' ! i))
            \<and> table_rule (strip (split_on 10 text' ! i))) \<and>
      (\<lparr>line_no = i + 1, line_text = strip (split_on 10 text' ! i)\<rparr>
          \<in> set (paragraphs (analyze_text_structure U text'))
        \<longleftrightarrow> \<not> heading_rule U (strip (split_on 10 text' ! i))
            \<and> \<not> list_rule (strip (split_on 10 text' ! i))
            \<and> \<not> code_rule (strip (split_on 10 text' ! i))
            \<and> \<not> table_rule (strip (split_on 10 text' ! i)))"
  proof (intro allI impI)
    fix i
    assume i: "i < length (split_on 10 text')" and nb: "strip (split_on 10 text' ! i) \<noteq> []"
    note iff = entry_in_bucket_iff [OF i nb, of _ U, unfolded first_match_def]
    show "(\<lparr>line_no = i + 1, line_text = strip (split_on 10 text' ! i)\<rparr>
          \<in> set (headings (analyze_text_structure U text'))
        \<longleftrightarrow> heading_rule U (strip (split_on 10 text' ! i))) \<and>
      (\<lparr>line_no = i + 1, line_text = strip (split_on 10 text' ! i)\<rparr>
          \<in> set (lists' (analyze_text_structure U text'))
        \<longleftrightarrow> \<not> heading_rule U (strip (split_on 10 text' ! i))
            \<and> list_rule (strip (split_on 10 text' ! i))) \<and>
      (\<lparr>line_no = i + 1, line_text = strip (split_on 10 text' ! i)\<rparr>
          \<in> set (code_blocks (analyze_text_structure U text'))
        \<longleftrightarrow> \<not> heading_rule U (strip (split_on 10 text' ! i))
            \<and> \<not> list_rule (strip (split_on 10 text' ! i))
            \<and> code_rule (strip (split_on 10 text' ! i))) \<and>
      (\<lparr>line_no = i + 1, line_text = strip (split_on 10 text' ! i)\<rparr>
          \<in> set (tables (analyze_text_structure U text'))
        \<longleftrightarrow> \<not> heading_rule U (strip (split_on 10 text' ! i))
            \<and> \<not> list_rule (strip (split_on 10 text' ! i))
            \<and> \<not> code_rule (strip (split_on 10 text' ! i))
            \<and> table_rule (strip (split_on 10 text' ! i))) \<and>
      (\<lparr>line_no = i + 1, line_text = strip (split_on 10 text' ! i)\<rparr>
          \<in> set (paragraphs (analyze_text_structure U text'))
        \<longleftrightarrow> \<not> heading_rule U (strip (split_on 10 text' ! i))
            \<and> \<not> list_rule (strip (split_on 10 text' ! i))
            \<and> \<not> code_rule (strip (split_on 10 text' ! i))
            \<and> \<not> table_rule (strip (split_on 10 text' ! i)))"
      using iff [of Heading] iff [of ListItem] iff [of CodeLike] iff [of TableLike]
            iff [of Paragraph]
      by (simp add: bucket_of_simps)
  qed
  have examples: "\<not> code_rule (u ''# Title'')" "code_rule (u ''1. x = 5;'')"
    by (simp_all add: code_rule_def code_chars_def u_def)
  from general examples analyze_hash_title analyze_total_due analyze_numbered_code
  show ?thesis by blast
qed

text \<open>
  The theorem at a text of three lines, the second blank: the third line, \<open>x = 1\<close>, is
  recorded with line number 3 among the code-like lines and not among the paragraphs.
\<close>

theorem first_matching_rule_wins_witness:
  "2 < length (split_on 10 (u ''# A\<newline>\<newline>x = 1''))
   \<and> strip (split_on 10 (u ''# A\<newline>\<newline>x = 1'') ! 2) \<noteq> []
   \<and> \<lparr>line_no = 3, line_text = u ''x = 1''\<rparr>
        \<in> set (code_blocks (analyze_text_structure ascii_ucd (u ''# A\<newline>\<newline>x = 1'')))
   \<and> \<lparr>line_no = 3, line_text = u ''x = 1''\<rparr>
        \<notin> set (paragraphs (analyze_text_structure ascii_ucd (u ''# A\<newline>\<newline>x = 1'')))"
proof -
  have lines: "split_on 10 (u ''# A\<newline>\<newline>x = 1'') = [u ''# A'', [], u ''x = 1'']"
    by (simp add: u_def)
  have st: "strip (u ''x = 1'') = u ''x = 1''"
    by (simp add: u_def strip_def isspace_ch_def)
  have rules: "\<not> heading_rule ascii_ucd (u ''x = 1'')" "\<not> list_rule (u ''x = 1'')"
    "code_rule (u ''x = 1'')"
    by (simp_all add: u_def heading_rule_def startswith_def isupper_def ch_isupper_def
          ch_islower_def ch_istitle_def list_rule_def list_prefixes_def code_rule_def
          code_chars_def)
  from first_matching_rule_wins [of "u ''# A\<newline>\<newline>x = 1''" ascii_ucd]
  have "\<forall>i < length [u ''# A'', [], u ''x = 1'']. strip ([u ''# A'', [], u ''x = 1''] ! i) \<noteq> [] \<longrightarrow>
      (\<lparr>line_no = i + 1, line_text = strip ([u ''# A'', [], u ''x = 1''] ! i)\<rparr>
          \<in> set (code_blocks (analyze_text_structure ascii_ucd (u ''# A\<newline>\<newline>x = 1'')))
        \<longleftrightarrow> \<not> heading_rule ascii_ucd (strip ([u ''# A'', [], u ''x = 1''] ! i))
            \<and> \<not> list_rule (strip ([u ''# A'', [], u ''x = 1''] ! i))
            \<and> code_rule (strip ([u ''# A'', [], u ''x = 1''] ! i))) \<and>
      (\<lparr>line_no = i + 1, line_text = strip ([u ''# A'', [], u ''x = 1''] ! i)\<rparr>
          \<in> set (paragraphs (analyze_text_structure ascii_ucd (u ''# A\<newline>\<newline>x = 1'')))
        \<longleftrightarrow> \<not> heading_rule ascii_ucd (strip ([u ''# A'', [], u ''x = 1''] ! i))
            \<and> \<not> list_rule (strip ([u ''# A'', [], u ''x = 1''] ! i))
            \<and> \<not> code_rule (strip ([u ''# A'', [], u ''x = 1''] ! i))
            \<and> \<not> table_rule (strip ([u ''# A'', [], u ''x = 1''] ! i)))"
    unfolding lines by blast
  from this [rule_format, of 2] st rules
  have "\<lparr>line_no = 3, line_text = u ''x = 1''\<rparr>
        \<in> set (code_blocks (analyze_text_structure ascii_ucd (u ''# A\<newline>\<newline>x = 1'')))
   \<and> \<lparr>line_no = 3, line_text = u ''x = 1''\<rparr>
        \<notin> set (paragraphs (analyze_text_structure ascii_ucd (u ''# A\<newline>\<newline>x = 1'')))"
    by (simp add: u_def)
  with lines st show ?thesis by (simp add: u_def)
qed

text \<open>
  Claim C4. For every text, the five buckets together hold, each exactly once, the entries of
  the lines that are not blank after trimming, and nothing else: the buckets partition the
  non-blank lines, and a blank line is in no bucket. The entry of a line holds its 1-based
  index in the text split at newlines (blank lines are counted) and its trimmed text.
\<close>

theorem buckets_partition_nonblank_lines:
  "mset (headings (analyze_text_structure U text')) + mset (lists' (analyze_text_structure U text'))
     + mset (code_blocks (analyze_text_structure U text')) + mset (tables (analyze_text_structure U text'))
     + mset (paragraphs (analyze_text_structure U text'))
   = mset (map (\<lambda>k. \<lparr>line_no = k + 1, line_text = strip (split_on 10 text' ! k)\<rparr>)
        (filter (\<lambda>k. strip (split_on 10 text' ! k) \<noteq> []) [0..<length (split_on 10 text')]))"
proof -
  have "mset (headings (analyze_text_structure U text')) + mset (lists' (analyze_text_structure U text'))
     + mset (code_blocks (analyze_text_structure U text')) + mset (tables (analyze_text_structure U text'))
     + mset (paragraphs (analyze_text_structure U text')) = all_buckets U 0 (split_on 10 text')"
    by (simp add: all_buckets_def bucket_of_analyze [symmetric] bucket_of_simps)
  also have "\<dots> = mset (map (\<lambda>k. \<lparr>line_no = 0 + k + 1, line_text = strip (split_on 10 text' ! k)\<rparr>)
        (filter (\<lambda>k. strip (split_on 10 text' ! k) \<noteq> []) [0..<length (split_on 10 text')]))"
    by (rule all_buckets_eq)
  finally show ?thesis by simp
qed

text \<open>
  The theorem at a text of four lines with a blank second line and a trailing line of blanks:
  the two non-blank lines keep the numbers 1 and 3.
\<close>

theorem buckets_partition_nonblank_lines_witness:
  "mset (headings (analyze_text_structure ascii_ucd (u ''# A\<newline>\<newline> x = 1 \<newline>  '')))
     + mset (lists' (analyze_text_structure ascii_ucd (u ''# A\<newline>\<newline> x = 1 \<newline>  '')))
     + mset (code_blocks (analyze_text_structure ascii_ucd (u ''# A\<newline>\<newline> x = 1 \<newline>  '')))
     + mset (tables (analyze_text_structure ascii_ucd (u ''# A\<newline>\<newline> x = 1 \<newline>  '')))
     + mset (paragraphs (analyze_text_structure ascii_ucd (u ''# A\<newline>\<newline> x = 1 \<newline>  '')))
   = {#\<lparr>line_no = 1, line_text = u ''# A''\<rparr>, \<lparr>line_no = 3, line_text = u ''x = 1''\<rparr>#}"
proof -
  have lines: "split_on 10 (u ''# A\<newline>\<newline> x = 1 \<newline>  '') = [u ''# A'', [], u '' x = 1 '', u ''  '']"
    by (simp add: u_def)
  have st: "strip (u ''# A'') = u ''# A''" "strip [] = []" "strip (u '' x = 1 '') = u ''x = 1''"
    "strip (u ''  '') = []"
    by (simp_all add: u_def strip_def isspace_ch_def)
  have upt: "[0..<length [u ''# A'', [], u '' x = 1 '', u ''  '']] = [0, 1, 2, 3]"
    by (simp add: upt_rec)
  have ne: "u ''# A'' \<noteq> []" "u ''x = 1'' \<noteq> []"
    by (simp_all add: u_def)
  show ?thesis
    using buckets_partition_nonblank_lines [of ascii_ucd "u ''# A\<newline>\<newline> x = 1 \<newline>  ''"]
    unfolding lines upt by (simp add: st ne)
qed

text \<open>
  Claim C10. A line whose trimmed form is not empty, does not start with \<open>#\<close> and has no
  cased character fails the upper-case test, since \<open>isupper\<close> needs a cased character. So
  the heading rule does not match it, its entry is not among the headings, and it is among
  the list items, the code-like lines, the table-like lines or the paragraphs.
\<close>

theorem caseless_line_is_no_heading:
  assumes "i < length (split_on 10 text')"
    and "strip (split_on 10 text' ! i) \<noteq> []"
    and "\<not> startswith (strip (split_on 10 text' ! i)) [35]"
    and "\<forall>c \<in> set (strip (split_on 10 text' ! i)).
           \<not> ch_isupper U c \<and> \<not> ch_islower U c \<and> \<not> ch_istitle U c"
  shows "\<not> isupper U (strip (split_on 10 text' ! i))
    \<and> \<not> heading_rule U (strip (split_on 10 text' ! i))
    \<and> \<lparr>line_no = i + 1, line_text = strip (split_on 10 text' ! i)\<rparr>
         \<notin> set (headings (analyze_text_structure U text'))
    \<and> \<lparr>line_no = i + 1, line_text = strip (split_on 10 text' ! i)\<rparr>
         \<in> set (lists' (analyze_text_structure U text'))
           \<union> set (code_blocks (analyze_text_structure U text'))
           \<union> set (tables (analyze_text_structure U text'))
           \<union> set (paragraphs (analyze_text_structure U text'))"
proof -
  let ?l = "strip (split_on 10 text' ! i)"
  let ?e = "\<lparr>line_no = i + 1, line_text = ?l\<rparr>"
  have up: "\<not> isupper U ?l"
    using assms(4) by (simp add: isupper_def list_ex_iff)
  with assms(3) have hd: "\<not> heading_rule U ?l"
    by (simp add: heading_rule_def)
  then have fm: "first_match U ?l \<noteq> Heading"
    by (simp add: first_match_def)
  note iff = entry_in_bucket_iff [OF assms(1) assms(2), of _ U]
  from fm iff [of Heading] have nh: "?e \<notin> set (headings (analyze_text_structure U text'))"
    by (simp add: bucket_of_simps)
  have "?e \<in> set (bucket_of (first_match U ?l) (analyze_text_structure U text'))"
    using iff [of "first_match U ?l"] by simp
  with fm have "?e \<in> set (lists' (analyze_text_structure U text'))
           \<union> set (code_blocks (analyze_text_structure U text'))
           \<union> set (tables (analyze_text_structure U text'))
           \<union> set (paragraphs (analyze_text_structure U text'))"
    by (cases "first_match U ?l") (simp_all add: bucket_of_simps)
  with up hd nh show ?thesis by blast
qed

text \<open>The theorem at the one-line text \<open>2024\<close>, which is filed as a paragraph.\<close>

theorem caseless_line_is_no_heading_witness:
  "0 < length (split_on 10 (u ''2024''))
   \<and> strip (split_on 10 (u ''2024'') ! 0) \<noteq> []
   \<and> \<not> startswith (strip (split_on 10 (u ''2024'') ! 0)) [35]
   \<and> list_all (\<lambda>c. \<not> ch_isupper ascii_ucd c \<and> \<not> ch_islower ascii_ucd c \<and> \<not> ch_istitle ascii_ucd c)
         (strip (split_on 10 (u ''2024'') ! 0))
   \<and> \<not> isupper ascii_ucd (u ''2024'')
   \<and> \<lparr>line_no = 1, line_text = u ''2024''\<rparr>
        \<notin> set (headings (analyze_text_structure ascii_ucd (u ''2024'')))
   \<and> analyze_text_structure ascii_ucd (u ''2024'') =
        \<lparr>headings = [], lists' = [], paragraphs = [\<lparr>line_no = 1, line_text = u ''2024''\<rparr>],
         tables = [], code_blocks = []\<rparr>"
proof -
  have lines: "split_on 10 (u ''2024'') = [u ''2024'']"
    by (simp add: u_def)
  have st: "strip (u ''2024'') = u ''2024''"
    by (simp add: u_def strip_def isspace_ch_def)
  have h1: "0 < length (split_on 10 (u ''2024''))"
    and h2: "strip (split_on 10 (u ''2024'') ! 0) \<noteq> []"
    and h3: "\<not> startswith (strip (split_on 10 (u ''2024'') ! 0)) [35]"
    and h4: "\<forall>c \<in> set (strip (split_on 10 (u ''2024'') ! 0)).
         \<not> ch_isupper ascii_ucd c \<and> \<not> ch_islower ascii_ucd c \<and> \<not> ch_istitle ascii_ucd c"
    unfolding lines by (simp_all add: st) (simp_all add: u_def startswith_def ch_isupper_def
      ch_islower_def ch_istitle_def)
  have run: "analyze_text_structure ascii_ucd (u ''2024'') =
        \<lparr>headings = [], lists' = [], paragraphs = [\<lparr>line_no = 1, line_text = u ''2024''\<rparr>],
         tables = [], code_blocks = []\<rparr>"
    by (simp add: analyze_text_structure_def u_def loop_body_def strip_def isspace_ch_def
        heading_rule_def startswith_def empty_structure_def isupper_def ch_isupper_def
        ch_islower_def ch_istitle_def list_rule_def list_prefixes_def code_rule_def
        code_chars_def table_rule_def)
  from h4 have h4': "list_all (\<lambda>c. \<not> ch_isupper ascii_ucd c \<and> \<not> ch_islower ascii_ucd c
      \<and> \<not> ch_istitle ascii_ucd c) (strip (split_on 10 (u ''2024'') ! 0))"
    by (simp add: list_all_iff)
  from caseless_line_is_no_heading [OF h1 h2 h3 h4] h1 h2 h3 h4' run
  show ?thesis unfolding lines by (simp add: st)
qed

section \<open>Properties of the history\<close>

lemma add_to_history_eq:
  "ocr_history (add_to_history now text' language filename ptime s) =
     Some (take 20 (make_history_item now text' language filename ptime # history_list s))"
  by (simp add: add_to_history_def history_list_def Let_def split: option.splits)

lemma history_list_add:
  "history_list (add_to_history now text' language filename ptime s) =
     take 20 (make_history_item now text' language filename ptime # history_list s)"
  using add_to_history_eq [of now text' language filename ptime s]
  by (simp add: history_list_def)

lemma take_20_Cons_take: "take 20 (x # take 20 ys) = take 20 (x # ys)"
  by (simp add: take_Cons')

lemma take_20_append_take: "take 20 (xs @ take 20 ys) = take 20 (xs @ ys)"
  by (simp add: min_def)

lemma history_list_add_all:
  "history_list (add_all_to_history cs s) =
     (if cs = [] then history_list s else take 20 (rev (map item_of_call cs) @ history_list s))"
proof (induction cs arbitrary: s)
  case Nil
  show ?case by simp
next
  case (Cons c cs)
  let ?s = "add_to_history (hc_now c) (hc_text c) (hc_language c) (hc_filename c)
              (hc_processing_time c) s"
  have step: "history_list ?s = take 20 (item_of_call c # history_list s)"
    by (simp add: history_list_add item_of_call_def)
  show ?case
  proof (cases "cs = []")
    case True
    then show ?thesis by (simp add: step)
  next
    case False
    then have "history_list (add_all_to_history (c # cs) s)
        = take 20 (rev (map item_of_call cs) @ take 20 (item_of_call c # history_list s))"
      by (simp add: Cons.IH step)
    also have "\<dots> = take 20 (rev (map item_of_call cs) @ item_of_call c # history_list s)"
      by (rule take_20_append_take)
    finally show ?thesis by simp
  qed
qed

lemma history_list_empty: "history_list empty_session = []"
  by (simp add: history_list_def empty_session_def)

lemma upt_25: "[0..<25] = [0,1,2,3,4,5,6,7,8,9,10,11,12,13,14,15,16,17,18,19,20,21,22,23,24]"
  by (simp add: upt_rec)

text \<open>
  Claim C5. A call of \<open>add_to_history\<close> builds an entry whose preview is the text, or its
  first 200 characters followed by \<open>...\<close> when it is longer than 200 characters, and whose
  full text is the text; it puts the entry at position 0 and keeps the first 20 entries. So
  the history never holds more than 20 entries, and after any sequence of calls from the empty
  session it is the entries of the calls, the most recent first, cut to 20. After 25 calls it
  holds exactly 20 entries, the entry of the 25th call at position 0, and the entries of the
  first 5 calls are gone.
\<close>

theorem history_most_recent_first_capped:
  "ocr_history (add_to_history now text' language filename ptime s) =
     Some (take 20
       (\<lparr>hi_timestamp = now,
         hi_text = (if length text' > 200 then take 200 text' @ u ''...'' else text'),
         hi_language = language, hi_filename = filename, hi_processing_time = ptime,
         hi_full_text = text'\<rparr> # history_list s))
   \<and> length (history_list (add_to_history now text' language filename ptime s)) \<le> 20
   \<and> history_list (add_all_to_history cs empty_session) = take 20 (rev (map item_of_call cs))
   \<and> (length cs = 25 \<longrightarrow>
        length (history_list (add_all_to_history cs empty_session)) = 20
        \<and> history_list (add_all_to_history cs empty_session) ! 0 = item_of_call (cs ! 24)
        \<and> history_list (add_all_to_history cs empty_session) = rev (map item_of_call (drop 5 cs)))"
proof -
  have one: "ocr_history (add_to_history now text' language filename ptime s) =
     Some (take 20
       (\<lparr>hi_timestamp = now,
         hi_text = (if length text' > 200 then take 200 text' @ u ''...'' else text'),
         hi_language = language, hi_filename = filename, hi_processing_time = ptime,
         hi_full_text = text'\<rparr> # history_list s))"
    using add_to_history_eq [of now text' language filename ptime s]
    by (simp add: make_history_item_def)
  have cap: "length (history_list (add_to_history now text' language filename ptime s)) \<le> 20"
    by (simp add: history_list_add)
  have many: "history_list (add_all_to_history cs empty_session) = take 20 (rev (map item_of_call cs))"
    by (simp add: history_list_add_all history_list_empty)
  have twentyfive: "length (history_list (add_all_to_history cs empty_session)) = 20
        \<and> history_list (add_all_to_history cs empty_session) ! 0 = item_of_call (cs ! 24)
        \<and> history_list (add_all_to_history cs empty_session) = rev (map item_of_call (drop 5 cs))"
    if len: "length cs = 25"
  proof -
    have eq: "take 20 (rev (map item_of_call cs)) = rev (map item_of_call (drop 5 cs))"
      using len by (simp add: take_rev drop_map)
    have "rev (map item_of_call cs) ! 0 = item_of_call (cs ! 24)"
      using len by (simp add: rev_nth)
    then have "take 20 (rev (map item_of_call cs)) ! 0 = item_of_call (cs ! 24)"
      by simp
    with eq len show ?thesis by (simp add: many)
  qed
  from one cap many twentyfive show ?thesis by blast
qed

text \<open>
  The theorem at 25 calls with the texts \<open>A\<close> to \<open>Y\<close>: the history holds the texts
  \<open>Y\<close> down to \<open>F\<close>.
\<close>

theorem history_most_recent_first_capped_witness:
  "length sample_calls = 25
   \<and> length (history_list (add_all_to_history sample_calls empty_session)) = 20
   \<and> hi_full_text (history_list (add_all_to_history sample_calls empty_session) ! 0) = [89]
   \<and> map hi_full_text (history_list (add_all_to_history sample_calls empty_session))
       = [[89], [88], [87], [86], [85], [84], [83], [82], [81], [80], [79], [78], [77], [76],
          [75], [74], [73], [72], [71], [70]]"
proof -
  have len: "length sample_calls = 25"
    by (simp add: sample_calls_def)
  from history_most_recent_first_capped [of _ _ _ _ _ _ sample_calls] len
  have eq: "history_list (add_all_to_history sample_calls empty_session)
            = rev (map item_of_call (drop 5 sample_calls))"
    by blast
  have full: "map hi_full_text (rev (map item_of_call (drop 5 sample_calls)))
       = [[89], [88], [87], [86], [85], [84], [83], [82], [81], [80], [79], [78], [77], [76],
          [75], [74], [73], [72], [71], [70]]"
    by (simp add: sample_calls_def upt_25 item_of_call_def make_history_item_def)
  show ?thesis
    unfolding eq using len full by (simp add: sample_calls_def upt_25 item_of_call_def make_history_item_def)
qed

section \<open>Properties of the shared results\<close>

lemma digits_lt10: "n < 10 \<Longrightarrow> digits n = [48 + n]"
  by (simp add: digits.simps)

lemma digits_ge10: "10 \<le> n \<Longrightarrow> digits n = digits (n div 10) @ [48 + n mod 10]"
  by (subst digits.simps) simp

lemma digits_encodable: "list_all utf8_encodable_ch (digits n)"
proof (induction n rule: digits.induct)
  case (1 n)
  show ?case
  proof (cases "n < 10")
    case True
    then show ?thesis by (simp add: digits_lt10 utf8_encodable_ch_def)
  next
    case False
    have "n mod 10 < 10" by simp
    then have "utf8_encodable_ch (48 + n mod 10)"
      unfolding utf8_encodable_ch_def by linarith
    with False "1.IH" show ?thesis by (simp add: digits_ge10)
  qed
qed

lemma str_int_encodable: "list_all utf8_encodable_ch (str_int n)"
  by (simp add: str_int_def digits_encodable utf8_encodable_ch_def)

lemma str_encode_Inr:
  "list_all utf8_encodable_ch (text' @ language) \<Longrightarrow>
   str_encode (text' @ language @ str_int now)
     = Inr (concat (map utf8_bytes (text' @ language @ str_int now)))"
  using str_int_encodable [of now] by (simp add: str_encode_def)

lemma str_encode_Inl:
  "\<not> list_all utf8_encodable_ch (text' @ language) \<Longrightarrow>
   str_encode (text' @ language @ str_int now) = Inl UnicodeEncodeError"
  by (auto simp add: str_encode_def)

lemma generate_raises:
  "\<not> list_all utf8_encodable_ch (text' @ language) \<Longrightarrow>
   generate_shareable_link md5 base now text' language s = Inl UnicodeEncodeError"
  by (simp add: generate_shareable_link_def Let_def str_encode_Inl)

lemma generate_returns:
  "list_all utf8_encodable_ch (text' @ language) \<Longrightarrow>
   generate_shareable_link md5 base now text' language s =
     Inr (((case base of None \<Rightarrow> u ''http://localhost:8501''
            | Some b \<Rightarrow> if b = [] then u ''http://localhost:8501'' else b)
           @ u ''?share='' @ str_int now @ u ''_''
           @ take 8 (md5 (concat (map utf8_bytes (text' @ language @ str_int now)))),
           str_int now @ u ''_''
           @ take 8 (md5 (concat (map utf8_bytes (text' @ language @ str_int now))))),
          s\<lparr>shared_results :=
             Some ((case shared_results s of None \<Rightarrow> Map.empty | Some m \<Rightarrow> m)
               (str_int now @ u ''_''
                  @ take 8 (md5 (concat (map utf8_bytes (text' @ language @ str_int now))))
                \<mapsto> \<lparr>sr_text = text', sr_language = language, sr_timestamp = str_int now\<rparr>))\<rparr>)"
  by (simp add: generate_shareable_link_def Let_def str_encode_Inr default_base_url_def
        split: option.splits)

lemma generate_Inl:
  "generate_shareable_link md5 base now text' language s = Inl e \<Longrightarrow>
   e = UnicodeEncodeError \<and> \<not> list_all utf8_encodable_ch (text' @ language)"
  using generate_returns [of text' language md5 base now s]
        generate_raises [of text' language md5 base now s]
  by (cases "list_all utf8_encodable_ch (text' @ language)") simp_all

lemma get_after_generate:
  assumes g: "generate_shareable_link md5 base now text' language s = Inr ((url, sid'), s')"
  shows "get_shared_result sid s' =
     (if sid = sid'
      then Some \<lparr>sr_text = text', sr_language = language, sr_timestamp = str_int now\<rparr>
      else get_shared_result sid s)"
proof -
  have enc: "list_all utf8_encodable_ch (text' @ language)"
    using g generate_raises [of text' language md5 base now s]
    by (cases "list_all utf8_encodable_ch (text' @ language)") simp_all
  from generate_returns [OF enc, of md5 base now s] g
  have sid': "sid' = str_int now @ u ''_''
           @ take 8 (md5 (concat (map utf8_bytes (text' @ language @ str_int now))))"
    and s': "s' = s\<lparr>shared_results :=
             Some ((case shared_results s of None \<Rightarrow> Map.empty | Some m \<Rightarrow> m)
               (sid' \<mapsto> \<lparr>sr_text = text', sr_language = language, sr_timestamp = str_int now\<rparr>))\<rparr>"
    by simp_all
  show ?thesis
    unfolding s' by (simp add: get_shared_result_def split: option.splits)
qed

lemma share_all_other:
  "sid \<notin> set (fst (share_all md5 base cs s)) \<Longrightarrow>
     get_shared_result sid (snd (share_all md5 base cs s)) = get_shared_result sid s"
proof (induction cs arbitrary: s)
  case Nil
  show ?case by simp
next
  case (Cons c cs)
  obtain now text' language where c: "c = (now, text', language)"
    by (cases c) auto
  show ?case
  proof (cases "generate_shareable_link md5 base now text' language s")
    case (Inl e)
    with Cons.prems c have "sid \<notin> set (fst (share_all md5 base cs s))"
      by simp
    from Cons.IH [OF this] Inl c show ?thesis by simp
  next
    case (Inr r)
    obtain url sid' s' where r: "r = ((url, sid'), s')"
      by (cases r) auto
    obtain sids s'' where rest: "share_all md5 base cs s' = (sids, s'')"
      by (cases "share_all md5 base cs s'") auto
    from Cons.prems c Inr r rest
    have ne: "sid \<noteq> sid'" and notin: "sid \<notin> set (fst (share_all md5 base cs s'))"
      by auto
    have "get_shared_result sid (snd (share_all md5 base (c # cs) s)) = get_shared_result sid s''"
      by (simp add: c Inr r rest)
    also have "\<dots> = get_shared_result sid s'"
      using Cons.IH [OF notin] rest by simp
    also have "\<dots> = get_shared_result sid s"
      using get_after_generate [OF Inr [unfolded r], of sid] ne by simp
    finally show ?thesis .
  qed
qed

text \<open>
  Claim C6. After any sequence of calls of \<open>generate_shareable_link\<close> from the empty
  session, \<open>get_shared_result\<close> returns \<open>None\<close> for an identifier that none of the calls
  returned. And when a call of \<open>generate_shareable_link\<close> returns, in any session,
  \<open>get_shared_result\<close> right after it, at the identifier returned, gives the record with
  the text and the language of the call, unchanged. The call returns whenever the text and the
  language hold no surrogate code point, and raises \<open>UnicodeEncodeError\<close> otherwise.
\<close>

theorem share_resolution_roundtrip:
  "(sid \<notin> set (fst (share_all md5 base cs empty_session)) \<longrightarrow>
      get_shared_result sid (snd (share_all md5 base cs empty_session)) = None)
   \<and> (generate_shareable_link md5 base now text' language s = Inr ((url, sid'), s') \<longrightarrow>
        get_shared_result sid' s'
          = Some \<lparr>sr_text = text', sr_language = language, sr_timestamp = str_int now\<rparr>)
   \<and> (list_all utf8_encodable_ch (text' @ language) \<longrightarrow>
        (\<exists>url' sid'' s''.
           generate_shareable_link md5 base now text' language s = Inr ((url', sid''), s'')))
   \<and> (\<not> list_all utf8_encodable_ch (text' @ language) \<longrightarrow>
        generate_shareable_link md5 base now text' language s = Inl UnicodeEncodeError)"
proof -
  have none: "get_shared_result sid empty_session = None"
    by (simp add: get_shared_result_def empty_session_def)
  have never: "sid \<notin> set (fst (share_all md5 base cs empty_session)) \<longrightarrow>
      get_shared_result sid (snd (share_all md5 base cs empty_session)) = None"
    using share_all_other [of sid md5 base cs empty_session] none by simp
  have round: "generate_shareable_link md5 base now text' language s = Inr ((url, sid'), s') \<longrightarrow>
        get_shared_result sid' s'
          = Some \<lparr>sr_text = text', sr_language = language, sr_timestamp = str_int now\<rparr>"
    using get_after_generate [of md5 base now text' language s url sid' s' sid'] by simp
  have returns: "list_all utf8_encodable_ch (text' @ language) \<longrightarrow>
        (\<exists>url' sid'' s''.
           generate_shareable_link md5 base now text' language s = Inr ((url', sid''), s''))"
    using generate_returns [of text' language md5 base now s] by blast
  have raises: "\<not> list_all utf8_encodable_ch (text' @ language) \<longrightarrow>
        generate_shareable_link md5 base now text' language s = Inl UnicodeEncodeError"
    using generate_raises [of text' language md5 base now s] by blast
  from never round returns raises show ?thesis by blast
qed

text \<open>
  The theorem at one call with the text \<open>hello\<close>, at the identifier \<open>nope\<close>, which no
  call returned, and at the identifier that the call returned.
\<close>

theorem share_resolution_roundtrip_witness:
  "list_all utf8_encodable_ch (u ''hello'' @ u ''English'')
   \<and> u ''nope'' \<notin> set (fst (share_all fake_md5 None [(1700000000, u ''hello'', u ''English'')]
          empty_session))
   \<and> get_shared_result (u ''nope'')
        (snd (share_all fake_md5 None [(1700000000, u ''hello'', u ''English'')] empty_session)) = None
   \<and> fst (share_all fake_md5 None [(1700000000, u ''hello'', u ''English'')] empty_session)
        = [u ''1700000000_d41d8cd9'']
   \<and> get_shared_result (u ''1700000000_d41d8cd9'')
        (snd (share_all fake_md5 None [(1700000000, u ''hello'', u ''English'')] empty_session))
      = Some \<lparr>sr_text = u ''hello'', sr_language = u ''English'', sr_timestamp = u ''1700000000''\<rparr>"
proof -
  let ?g = "generate_shareable_link fake_md5 None 1700000000 (u ''hello'') (u ''English'')
              empty_session"
  have ts: "str_int 1700000000 = u ''1700000000''"
    by (simp add: str_int_def digits_lt10 digits_ge10 u_def)
  have enc: "list_all utf8_encodable_ch (u ''hello'' @ u ''English'')"
    by (simp add: u_def utf8_encodable_ch_def)
  have md: "take 8 (fake_md5 x) = u ''d41d8cd9''" for x
    by (simp add: fake_md5_def u_def)
  have app: "u ''1700000000'' @ u ''_'' @ u ''d41d8cd9'' = u ''1700000000_d41d8cd9''"
    by (simp add: u_def)
  obtain url s' where g: "?g = Inr ((url, u ''1700000000_d41d8cd9''), s')"
    using generate_returns [OF enc, of fake_md5 None 1700000000 empty_session]
    unfolding ts md app by blast
  have all: "share_all fake_md5 None [(1700000000, u ''hello'', u ''English'')] empty_session
      = ([u ''1700000000_d41d8cd9''], s')"
    by (simp add: g)
  have notin: "u ''nope'' \<notin> set (fst (share_all fake_md5 None
      [(1700000000, u ''hello'', u ''English'')] empty_session))"
    unfolding all by (simp add: u_def)
  note inst = share_resolution_roundtrip [of "u ''nope''" fake_md5 None
      "[(1700000000, u ''hello'', u ''English'')]" 1700000000 "u ''hello''" "u ''English''"
      empty_session url "u ''1700000000_d41d8cd9''" s']
  from inst notin have never: "get_shared_result (u ''nope'')
        (snd (share_all fake_md5 None [(1700000000, u ''hello'', u ''English'')] empty_session)) = None"
    by blast
  from inst g have round: "get_shared_result (u ''1700000000_d41d8cd9'') s'
      = Some \<lparr>sr_text = u ''hello'', sr_language = u ''English'', sr_timestamp = u ''1700000000''\<rparr>"
    unfolding ts by blast
  from enc notin never round show ?thesis
    unfolding all by simp
qed

text \<open>
  Claim C7, as stated, is about every text. At the text that is the one surrogate code
  point U+D800 the call raises in \<open>encode\<close>: no identifier is returned and nothing is
  stored.
\<close>

theorem share_link_raises_on_surrogate:
  "generate_shareable_link fake_md5 None 1700000000 [55296] (u ''English'') empty_session
     = Inl UnicodeEncodeError"
  by (simp add: generate_shareable_link_def Let_def str_encode_def utf8_encodable_ch_def)

text \<open>
  Claim C7, amended. For every text and language that hold no surrogate code point, and
  every clock reading, the call returns. The identifier is the decimal Unix time, an
  underscore and the first 8 characters of the MD5 hex digest of the UTF-8 encoding of the
  text, the language and the decimal Unix time concatenated. The URL returned is the
  configured base URL, or \<open>http://localhost:8501\<close> when none is configured (no value or the
  empty string), followed by \<open>?share=\<close> and the identifier. The record is stored under the
  identifier, and nothing else of the session changes. Two calls that agree on the text, the
  language and the clock reading return the same identifier, whatever the session and the
  base URL.
\<close>

theorem share_identifier_and_url:
  assumes "list_all utf8_encodable_ch (text' @ language)"
  shows "generate_shareable_link md5 base now text' language s =
     Inr (((case base of None \<Rightarrow> u ''http://localhost:8501''
            | Some b \<Rightarrow> if b = [] then u ''http://localhost:8501'' else b)
           @ u ''?share='' @ str_int now @ u ''_''
           @ take 8 (md5 (concat (map utf8_bytes (text' @ language @ str_int now)))),
           str_int now @ u ''_''
           @ take 8 (md5 (concat (map utf8_bytes (text' @ language @ str_int now))))),
          s\<lparr>shared_results :=
             Some ((case shared_results s of None \<Rightarrow> Map.empty | Some m \<Rightarrow> m)
               (str_int now @ u ''_''
                  @ take 8 (md5 (concat (map utf8_bytes (text' @ language @ str_int now))))
                \<mapsto> \<lparr>sr_text = text', sr_language = language, sr_timestamp = str_int now\<rparr>))\<rparr>)
   \<and> (\<exists>url2 s2'. generate_shareable_link md5 base2 now text' language s2 =
          Inr ((url2, str_int now @ u ''_''
             @ take 8 (md5 (concat (map utf8_bytes (text' @ language @ str_int now))))), s2'))
   \<and> str_encode (text' @ language @ str_int now)
        = Inr (concat (map utf8_bytes (text' @ language @ str_int now)))"
  using generate_returns [OF assms, of md5 base now s]
        generate_returns [OF assms, of md5 base2 now s2] str_encode_Inr [OF assms, of now]
  by blast

text \<open>The theorem with an empty and with a configured base URL.\<close>

theorem share_identifier_and_url_witness:
  "list_all utf8_encodable_ch (u ''hello'' @ u ''English'')
   \<and> fst (projr (generate_shareable_link fake_md5 (Some []) 1700000000 (u ''hello'') (u ''English'')
        empty_session))
     = (u ''http://localhost:8501?share=1700000000_d41d8cd9'', u ''1700000000_d41d8cd9'')
   \<and> fst (projr (generate_shareable_link fake_md5 (Some (u ''https://ocr.example'')) 1700000000
        (u ''hello'') (u ''English'') empty_session))
     = (u ''https://ocr.example?share=1700000000_d41d8cd9'', u ''1700000000_d41d8cd9'')
   \<and> \<not> isl (generate_shareable_link fake_md5 (Some []) 1700000000 (u ''hello'') (u ''English'')
        empty_session)"
proof -
  have ts: "str_int 1700000000 = u ''1700000000''"
    by (simp add: str_int_def digits_lt10 digits_ge10 u_def)
  have enc: "list_all utf8_encodable_ch (u ''hello'' @ u ''English'')"
    by (simp add: u_def utf8_encodable_ch_def)
  have md: "take 8 (fake_md5 x) = u ''d41d8cd9''" for x
    by (simp add: fake_md5_def u_def)
  have ne: "u ''https://ocr.example'' \<noteq> []"
    by (simp add: u_def)
  have app: "u ''1700000000'' @ u ''_'' @ u ''d41d8cd9'' = u ''1700000000_d41d8cd9''"
     "u ''http://localhost:8501'' @ u ''?share='' @ u ''1700000000_d41d8cd9''
        = u ''http://localhost:8501?share=1700000000_d41d8cd9''"
     "u ''https://ocr.example'' @ u ''?share='' @ u ''1700000000_d41d8cd9''
        = u ''https://ocr.example?share=1700000000_d41d8cd9''"
    by (simp_all add: u_def)
  from conjunct1 [OF share_identifier_and_url [OF enc, of fake_md5 "Some []" 1700000000
      empty_session]]
  have g1: "fst (projr (generate_shareable_link fake_md5 (Some []) 1700000000 (u ''hello'')
      (u ''English'') empty_session))
     = (u ''http://localhost:8501?share=1700000000_d41d8cd9'', u ''1700000000_d41d8cd9'')"
    and r1: "\<not> isl (generate_shareable_link fake_md5 (Some []) 1700000000 (u ''hello'')
      (u ''English'') empty_session)"
    unfolding ts md by (simp_all add: app)
  from conjunct1 [OF share_identifier_and_url [OF enc, of fake_md5 "Some (u ''https://ocr.example'')"
      1700000000 empty_session]]
  have g2: "fst (projr (generate_shareable_link fake_md5 (Some (u ''https://ocr.example''))
      1700000000 (u ''hello'') (u ''English'') empty_session))
     = (u ''https://ocr.example?share=1700000000_d41d8cd9'', u ''1700000000_d41d8cd9'')"
    unfolding ts md by (simp add: app ne)
  from enc g1 g2 r1 show ?thesis by blast
qed

section \<open>Properties of the language catalog\<close>

text \<open>
  Claim C9, as stated, asks for 66 entries; the dictionary of the source has 65, the entry
  \<open>Other\<close> included.
\<close>

theorem language_catalog_not_66_entries: "length languages \<noteq> 66"
  by (simp add: languages_def)

text \<open>
  Claim C9, amended. The catalog is a fixed mapping of 65 distinct language names to codes
  of the OCR service; its last entry, \<open>Other\<close>, has the code \<open>eng\<close> of \<open>English\<close>, and
  the selection starts at \<open>English\<close>.
\<close>

theorem language_catalog_65_entries:
  "length languages = 65
   \<and> distinct (map fst languages)
   \<and> last languages = (u ''Other'', u ''eng'')
   \<and> map_of languages (u ''English'') = Some (u ''eng'')
   \<and> map_of languages (u ''Other'') = map_of languages (u ''English'')
   \<and> default_selected_lang = u ''English''"
proof -
  have "length languages = 65" by (simp add: languages_def)
  moreover have "distinct (map fst languages)" by (simp add: languages_def u_def)
  moreover have "last languages = (u ''Other'', u ''eng'')" by (simp add: languages_def)
  moreover have "map_of languages (u ''English'') = Some (u ''eng'')" by (simp add: languages_def)
  moreover have "map_of languages (u ''Other'') = Some (u ''eng'')" by (simp add: languages_def u_def)
  moreover have "default_selected_lang = u ''English''"
    by (simp add: default_selected_lang_def language_names_def languages_def)
  ultimately show ?thesis by simp
qed

section \<open>Properties of the preprocessing\<close>

lemma preprocess_identity: "preprocess E 0 1 1 1 img = ([], Inr img)"
  by (simp add: preprocess_def)

lemma preprocess_plan:
  "preprocess E rotate_angle brightness contrast sharpness img
     = apply_plan E (transform_plan rotate_angle brightness contrast sharpness) img"
  by (cases "rotate_angle = 0"; cases "brightness = 1"; cases "contrast = 1";
      cases "sharpness = 1")
     (simp_all add: preprocess_def transform_plan_def split: sum.splits)

text \<open>
  Claim C8. The preprocessing block applies, in this order, the rotation by the negative of
  the selected angle with \<open>expand=True\<close>, the brightness, the contrast and the sharpness
  enhancement, the rotation only when the angle is not 0 and each enhancement only when its
  factor is not 1.0; each transform works on the result of the one before, and the first
  exception ends the block. With the angle 0 and the three factors 1.0 no library call is made
  and the image is returned as it was opened.
\<close>

theorem preprocessing_order_and_identity:
  "preprocess E rotate_angle brightness contrast sharpness img
     = apply_plan E (transform_plan rotate_angle brightness contrast sharpness) img
   \<and> transform_plan rotate_angle brightness contrast sharpness
     = (if rotate_angle \<noteq> 0 then [Rotate (- rotate_angle) True] else [])
       @ (if brightness \<noteq> 1 then [Brightness brightness] else [])
       @ (if contrast \<noteq> 1 then [Contrast contrast] else [])
       @ (if sharpness \<noteq> 1 then [Sharpness sharpness] else [])
   \<and> transform_plan 0 1 1 1 = []
   \<and> preprocess E 0 1 1 1 img = ([], Inr img)"
proof (intro conjI)
  show "preprocess E rotate_angle brightness contrast sharpness img
     = apply_plan E (transform_plan rotate_angle brightness contrast sharpness) img"
    by (rule preprocess_plan)
  show "transform_plan rotate_angle brightness contrast sharpness
     = (if rotate_angle \<noteq> 0 then [Rotate (- rotate_angle) True] else [])
       @ (if brightness \<noteq> 1 then [Brightness brightness] else [])
       @ (if contrast \<noteq> 1 then [Contrast contrast] else [])
       @ (if sharpness \<noteq> 1 then [Sharpness sharpness] else [])"
    by (rule transform_plan_def)
  show "transform_plan 0 1 1 1 = []"
    by (simp add: transform_plan_def)
  show "preprocess E 0 1 1 1 img = ([], Inr img)"
    by (rule preprocess_identity)
qed


text \<open>The theorem at the angle 90 and the contrast 1.5, and at the default controls.\<close>

theorem preprocessing_order_and_identity_witness:
  "preprocess sample_env 90 1 (3 / 2) 1 (3, 5)
     = ([PilTransform (Rotate (- 90) True) (3, 5), PilTransform (Contrast (3 / 2)) (5, 3)],
        Inr (5, 3))
   \<and> preprocess sample_env 0 1 1 1 (3, 5) = ([], Inr (3, 5))"
proof -
  have plan: "transform_plan 90 1 (3 / 2) 1 = [Rotate (- 90) True, Contrast (3 / 2)]"
    by (simp add: transform_plan_def)
  have run: "apply_plan sample_env [Rotate (- 90) True, Contrast (3 / 2)] (3, 5)
     = ([PilTransform (Rotate (- 90) True) (3, 5), PilTransform (Contrast (3 / 2)) (5, 3)],
        Inr (5, 3))"
    by (simp add: sample_env_def)
  from preprocessing_order_and_identity [of sample_env 90 1 "3 / 2" 1 "(3, 5)"]
  have "preprocess sample_env 90 1 (3 / 2) 1 (3, 5)
      = apply_plan sample_env (transform_plan 90 1 (3 / 2) 1) (3, 5)"
    by (rule conjunct1)
  moreover from preprocessing_order_and_identity [of sample_env 0 1 1 1 "(3, 5)"]
  have "preprocess sample_env 0 1 1 1 (3, 5) = ([], Inr (3, 5))"
    by blast
  ultimately show ?thesis
    unfolding plan run by (rule conjI)
qed

section \<open>Properties of the text extraction\<close>

lemma handle_result_events:
  "handle_result E result selected_lang code filename s = (Inr ev3, s') \<Longrightarrow>
     \<exists>m. ev3 = [StError m] \<or> ev3 = [StWarning m] \<or> ev3 = [StSuccess m]"
  by (auto simp add: handle_result_def on_success_def Let_def
        split: sum.splits if_splits prod.splits)

lemma size_budget_cases:
  "size_budget E img =
     (case pil_save E img png_args of
        Inl e \<Rightarrow> ([PilSave img png_args], Inl e)
      | Inr b \<Rightarrow>
          if length b > 1048576 then
            (case pil_resize E img (fst (pil_size E img) div 2, snd (pil_size E img) div 2) of
               Inl e \<Rightarrow> ([PilSave img png_args,
                          PilResize img (fst (pil_size E img) div 2, snd (pil_size E img) div 2)],
                         Inl e)
             | Inr img2 \<Rightarrow>
                 ([PilSave img png_args,
                   PilResize img (fst (pil_size E img) div 2, snd (pil_size E img) div 2),
                   PilSave img2 png_args], pil_save E img2 png_args))
          else ([PilSave img png_args], Inr b))"
  by (simp add: size_budget_def Let_def split: sum.splits)

lemma size_budget_resizes:
  "filter is_resize (fst (size_budget E img)) =
     (case pil_save E img png_args of
        Inl e \<Rightarrow> []
      | Inr b \<Rightarrow> if length b > 1048576
          then [PilResize img (fst (pil_size E img) div 2, snd (pil_size E img) div 2)] else [])"
  by (simp add: size_budget_cases split: sum.splits)

lemma size_budget_no_post: "HttpPost rq \<notin> set (fst (size_budget E img))"
  by (simp add: size_budget_cases split: sum.splits)

lemma extract_text_shape:
  "\<exists>tail. fst (extract_text E img filename selected_lang s) = fst (size_budget E img) @ tail
     \<and> filter is_resize tail = []
     \<and> (\<forall>rq. HttpPost rq \<in> set tail \<longrightarrow>
           (\<exists>fb. snd (size_budget E img) = Inr fb \<and> length fb \<le> 1048576
              \<and> rq_file_bytes rq = fb))"
proof (cases "size_budget E img")
  case (Pair ev1 r1)
  show ?thesis
  proof (cases r1)
    case (Inl e)
    with Pair show ?thesis by (simp add: extract_text_def)
  next
    case (Inr fb)
    show ?thesis
    proof (cases "length fb > 1048576")
      case True
      with Pair Inr show ?thesis by (simp add: extract_text_def)
    next
      case small: False
      show ?thesis
      proof (cases "map_of languages selected_lang")
        case None
        with Pair Inr small show ?thesis by (simp add: extract_text_def)
      next
        case (Some code)
        show ?thesis
        proof (cases "ocr_space_file E fb code (u ''helloworld'')")
          case bad: (Inl e)
          with Pair Inr small Some show ?thesis
            by (simp add: extract_text_def ocr_request_of_def)
        next
          case res: (Inr result)
          obtain r s' where hr: "handle_result E result selected_lang code filename s = (r, s')"
            by (cases "handle_result E result selected_lang code filename s")
          show ?thesis
          proof (cases r)
            case (Inl e)
            with Pair Inr small Some res hr show ?thesis
              by (simp add: extract_text_def ocr_request_of_def)
          next
            case ok: (Inr ev3)
            from handle_result_events [OF hr [unfolded ok]]
            obtain m where "ev3 = [StError m] \<or> ev3 = [StWarning m] \<or> ev3 = [StSuccess m]" ..
            with Pair Inr small Some res hr ok show ?thesis
              by (auto simp add: extract_text_def ocr_request_of_def)
          qed
        qed
      qed
    qed
  qed
qed

lemma extract_text_posts:
  "size_budget E img = (ev1, Inr fb) \<Longrightarrow> length fb \<le> 1048576 \<Longrightarrow>
   map_of languages selected_lang = Some code \<Longrightarrow>
   HttpPost (ocr_request_of fb code (u ''helloworld''))
     \<in> set (fst (extract_text E img filename selected_lang s))"
  by (simp add: extract_text_def Let_def split: sum.splits prod.splits)

lemma on_success_result:
  "ocr_result (snd (on_success E t l c f s)) = Some t
   \<and> ocr_language (snd (on_success E t l c f s)) = Some l
   \<and> ocr_language_code (snd (on_success E t l c f s)) = Some c
   \<and> fst (on_success E t l c f s) =
       (if list_all utf8_encodable_ch (t @ l)
        then Inr [StSuccess (success_message E l (elapsed E))]
        else Inl UnicodeEncodeError)
   \<and> (\<not> list_all utf8_encodable_ch (t @ l) \<longrightarrow>
        share_url (snd (on_success E t l c f s)) = share_url s
        \<and> share_id (snd (on_success E t l c f s)) = share_id s
        \<and> shared_results (snd (on_success E t l c f s)) = shared_results s)"
proof (cases "list_all utf8_encodable_ch (t @ l)")
  case True
  show ?thesis
    using True
    by (simp add: on_success_def Let_def generate_returns [OF True] add_to_history_def)
next
  case False
  show ?thesis
    using False
    by (simp add: on_success_def Let_def generate_raises [OF False] add_to_history_def)
qed

lemma hr_error:
  "truthy (dict_get kv (u ''IsErroredOnProcessing'') JNull) \<Longrightarrow>
   handle_result E (JObject kv) l c f s =
     (Inr [StError (u ''OCR Error: ''
            @ format_json E (dict_get kv (u ''ErrorMessage'') (JString (u ''Unknown error''))))], s)"
  by (simp add: handle_result_def json_get_def)

lemma hr_empty:
  "\<not> truthy (dict_get kv (u ''IsErroredOnProcessing'') JNull) \<Longrightarrow>
   \<not> truthy (dict_get kv (u ''ParsedResults'') (JArray [])) \<Longrightarrow>
   handle_result E (JObject kv) l c f s = (Inr [StWarning no_text_message], s)"
  by (simp add: handle_result_def json_get_def)

lemma hr_text:
  "\<not> truthy (dict_get kv (u ''IsErroredOnProcessing'') JNull) \<Longrightarrow>
   dict_get kv (u ''ParsedResults'') (JArray []) = JArray (JObject kv0 # rest) \<Longrightarrow>
   dict_get kv0 (u ''ParsedText'') (JString []) = JString raw \<Longrightarrow>
   handle_result E (JObject kv) l c f s =
     (if strip raw \<noteq> [] then on_success E (strip raw) l c f s
      else (Inr [StWarning no_text_message], s))"
  by (simp add: handle_result_def json_get_def json_strip_def)

lemma subscript0_Inr:
  "subscript0 x = Inr y \<Longrightarrow>
     (\<exists>rest. x = JArray (y # rest)) \<or> (\<exists>c cs. x = JString (c # cs) \<and> y = JString [c])"
  by (erule subscript0.elims) simp_all

lemma hr_changes:
  assumes "snd (handle_result E result l c f s) \<noteq> s"
  shows "\<exists>kv kv0 rest raw. result = JObject kv
      \<and> \<not> truthy (dict_get kv (u ''IsErroredOnProcessing'') JNull)
      \<and> dict_get kv (u ''ParsedResults'') (JArray []) = JArray (JObject kv0 # rest)
      \<and> dict_get kv0 (u ''ParsedText'') (JString []) = JString raw
      \<and> strip raw \<noteq> []
      \<and> handle_result E result l c f s = on_success E (strip raw) l c f s"
proof -
  from assms obtain kv where kv: "result = JObject kv"
    by (cases result) (simp_all add: handle_result_def json_get_def)
  have flag: "\<not> truthy (dict_get kv (u ''IsErroredOnProcessing'') JNull)"
  proof
    assume y: "truthy (dict_get kv (u ''IsErroredOnProcessing'') JNull)"
    from hr_error [OF y, of E l c f s] assms kv show False
      by simp
  qed
  have pr: "truthy (dict_get kv (u ''ParsedResults'') (JArray []))"
  proof (rule ccontr)
    assume n: "\<not> truthy (dict_get kv (u ''ParsedResults'') (JArray []))"
    from hr_empty [OF flag n, of E l c f s] assms kv show False
      by simp
  qed
  from assms kv flag pr obtain first where
    first: "subscript0 (dict_get kv (u ''ParsedResults'') (JArray [])) = Inr first"
    by (cases "subscript0 (dict_get kv (u ''ParsedResults'') (JArray []))")
       (simp_all add: handle_result_def json_get_def)
  from assms kv flag pr first obtain kv0 where kv0: "first = JObject kv0"
    by (cases first) (simp_all add: handle_result_def json_get_def)
  from subscript0_Inr [OF first] kv0 obtain rest where
    arr: "dict_get kv (u ''ParsedResults'') (JArray []) = JArray (JObject kv0 # rest)"
    by auto
  from assms kv flag pr first kv0 obtain raw where
    raw: "dict_get kv0 (u ''ParsedText'') (JString []) = JString raw"
    by (cases "dict_get kv0 (u ''ParsedText'') (JString [])")
       (simp_all add: handle_result_def json_get_def json_strip_def)
  from assms kv hr_text [OF flag arr raw, of E l c f s]
  have "strip raw \<noteq> [] \<and> handle_result E result l c f s = on_success E (strip raw) l c f s"
    by (auto split: if_splits)
  with kv flag arr raw show ?thesis by blast
qed

lemma extract_text_run:
  "size_budget E img = (ev1, Inr fb) \<Longrightarrow> length fb \<le> 1048576 \<Longrightarrow>
   map_of languages selected_lang = Some code \<Longrightarrow>
   requests_post E (ocr_request_of fb code (u ''helloworld'')) = Inr result \<Longrightarrow>
   extract_text E img filename selected_lang s =
     (case handle_result E result selected_lang code filename s of
        (Inl e, s') \<Rightarrow> (ev1 @ [StInfo (processing_message selected_lang code),
                          HttpPost (ocr_request_of fb code (u ''helloworld'')),
                          StError (processing_error_message E e)], s')
      | (Inr ev3, s') \<Rightarrow> (ev1 @ [StInfo (processing_message selected_lang code),
                          HttpPost (ocr_request_of fb code (u ''helloworld''))] @ ev3, s'))"
  by (simp add: extract_text_def ocr_space_file_def Let_def split: sum.splits prod.splits)

lemma extract_text_changes:
  assumes "snd (extract_text E img filename selected_lang s) \<noteq> s"
  shows "\<exists>fb code result.
      requests_post E (ocr_request_of fb code (u ''helloworld'')) = Inr result
      \<and> snd (handle_result E result selected_lang code filename s)
            = snd (extract_text E img filename selected_lang s)"
proof (cases "size_budget E img")
  case (Pair ev1 r1)
  show ?thesis
  proof (cases r1)
    case (Inl e)
    with Pair assms show ?thesis by (simp add: extract_text_def)
  next
    case (Inr fb)
    show ?thesis
    proof (cases "length fb > 1048576")
      case True
      with Pair Inr assms show ?thesis by (simp add: extract_text_def)
    next
      case small: False
      show ?thesis
      proof (cases "map_of languages selected_lang")
        case None
        with Pair Inr small assms show ?thesis by (simp add: extract_text_def)
      next
        case (Some code)
        show ?thesis
        proof (cases "requests_post E (ocr_request_of fb code (u ''helloworld''))")
          case bad: (Inl e)
          with Pair Inr small Some assms show ?thesis
            by (simp add: extract_text_def ocr_space_file_def)
        next
          case res: (Inr result)
          from small have le: "length fb \<le> 1048576" by simp
          note run = extract_text_run [OF Pair [unfolded Inr] le Some res, of filename s]
          have "snd (extract_text E img filename selected_lang s)
              = snd (handle_result E result selected_lang code filename s)"
            unfolding run by (simp split: prod.splits sum.splits)
          with res show ?thesis by metis
        qed
      qed
    qed
  qed
qed

text \<open>
  Claim C1. In every run of the handler, every request posted to the OCR service carries at
  most 1,048,576 bytes. When the PNG of the preprocessed image (saved with \<open>optimize=True\<close>)
  exceeds 1,048,576 bytes, the run calls \<open>resize\<close> exactly once, with half the width and
  half the height, and saves the resized image; when it does not exceed them, the run never
  calls \<open>resize\<close>. When the bytes of the resized image still exceed 1,048,576, the run
  consists of the two saves, the resize and the oversize error: no request is posted and the
  session is unchanged. When they do not, and the language is in the catalog, the request
  posted carries the bytes of the resized image. Whenever the resize returns an image, that
  image is saved again, with the same arguments.
\<close>

theorem oversize_never_reaches_ocr:
  "(\<forall>rq. HttpPost rq \<in> set (fst (extract_text E img filename selected_lang s))
        \<longrightarrow> length (rq_file_bytes rq) \<le> 1048576)
   \<and> (\<forall>b. pil_save E img png_args = Inr b \<and> length b > 1048576 \<longrightarrow>
        filter is_resize (fst (extract_text E img filename selected_lang s))
          = [PilResize img (fst (pil_size E img) div 2, snd (pil_size E img) div 2)])
   \<and> (\<forall>b. pil_save E img png_args = Inr b \<and> length b \<le> 1048576 \<longrightarrow>
        filter is_resize (fst (extract_text E img filename selected_lang s)) = [])
   \<and> (\<forall>b img2 b2. pil_save E img png_args = Inr b \<and> length b > 1048576
        \<and> pil_resize E img (fst (pil_size E img) div 2, snd (pil_size E img) div 2) = Inr img2
        \<and> pil_save E img2 png_args = Inr b2 \<and> length b2 > 1048576 \<longrightarrow>
        extract_text E img filename selected_lang s
          = ([PilSave img png_args,
              PilResize img (fst (pil_size E img) div 2, snd (pil_size E img) div 2),
              PilSave img2 png_args, StError too_large_message], s))
   \<and> (\<forall>b img2 b2 code. pil_save E img png_args = Inr b \<and> length b > 1048576
        \<and> pil_resize E img (fst (pil_size E img) div 2, snd (pil_size E img) div 2) = Inr img2
        \<and> pil_save E img2 png_args = Inr b2 \<and> length b2 \<le> 1048576
        \<and> map_of languages selected_lang = Some code \<longrightarrow>
        HttpPost (ocr_request_of b2 code (u ''helloworld''))
          \<in> set (fst (extract_text E img filename selected_lang s)))
   \<and> (\<forall>b img2. pil_save E img png_args = Inr b \<and> length b > 1048576
        \<and> pil_resize E img (fst (pil_size E img) div 2, snd (pil_size E img) div 2) = Inr img2
        \<longrightarrow> PilSave img2 png_args \<in> set (fst (extract_text E img filename selected_lang s)))
   \<and> sa_optimize png_args \<and> sa_format png_args = u ''PNG''"
proof -
  obtain tail where shape: "fst (extract_text E img filename selected_lang s)
        = fst (size_budget E img) @ tail"
    and nores: "filter is_resize tail = []"
    and posts: "\<forall>rq. HttpPost rq \<in> set tail \<longrightarrow>
           (\<exists>fb. snd (size_budget E img) = Inr fb \<and> length fb \<le> 1048576
              \<and> rq_file_bytes rq = fb)"
    using extract_text_shape [of E img filename selected_lang s] by blast
  have safe: "\<forall>rq. HttpPost rq \<in> set (fst (extract_text E img filename selected_lang s))
        \<longrightarrow> length (rq_file_bytes rq) \<le> 1048576"
  proof (intro allI impI)
    fix rq
    assume "HttpPost rq \<in> set (fst (extract_text E img filename selected_lang s))"
    then have "HttpPost rq \<in> set (fst (size_budget E img)) \<or> HttpPost rq \<in> set tail"
      by (simp add: shape)
    then have "HttpPost rq \<in> set tail"
      by (simp add: size_budget_no_post)
    with posts show "length (rq_file_bytes rq) \<le> 1048576"
      by blast
  qed
  have res: "filter is_resize (fst (extract_text E img filename selected_lang s))
      = (case pil_save E img png_args of
        Inl e \<Rightarrow> []
      | Inr b \<Rightarrow> if length b > 1048576
          then [PilResize img (fst (pil_size E img) div 2, snd (pil_size E img) div 2)] else [])"
    using shape nores size_budget_resizes [of E img] by simp
  have one: "\<forall>b. pil_save E img png_args = Inr b \<and> length b > 1048576 \<longrightarrow>
        filter is_resize (fst (extract_text E img filename selected_lang s))
          = [PilResize img (fst (pil_size E img) div 2, snd (pil_size E img) div 2)]"
    using res by simp
  have none: "\<forall>b. pil_save E img png_args = Inr b \<and> length b \<le> 1048576 \<longrightarrow>
        filter is_resize (fst (extract_text E img filename selected_lang s)) = []"
    using res by simp
  have over: "\<forall>b img2 b2. pil_save E img png_args = Inr b \<and> length b > 1048576
        \<and> pil_resize E img (fst (pil_size E img) div 2, snd (pil_size E img) div 2) = Inr img2
        \<and> pil_save E img2 png_args = Inr b2 \<and> length b2 > 1048576 \<longrightarrow>
        extract_text E img filename selected_lang s
          = ([PilSave img png_args,
              PilResize img (fst (pil_size E img) div 2, snd (pil_size E img) div 2),
              PilSave img2 png_args, StError too_large_message], s)"
    by (simp add: extract_text_def size_budget_cases)
  have sent: "\<forall>b img2 b2 code. pil_save E img png_args = Inr b \<and> length b > 1048576
        \<and> pil_resize E img (fst (pil_size E img) div 2, snd (pil_size E img) div 2) = Inr img2
        \<and> pil_save E img2 png_args = Inr b2 \<and> length b2 \<le> 1048576
        \<and> map_of languages selected_lang = Some code \<longrightarrow>
        HttpPost (ocr_request_of b2 code (u ''helloworld''))
          \<in> set (fst (extract_text E img filename selected_lang s))"
  proof (intro allI impI, elim conjE)
    fix b img2 b2 code
    assume h: "pil_save E img png_args = Inr b" "length b > 1048576"
      "pil_resize E img (fst (pil_size E img) div 2, snd (pil_size E img) div 2) = Inr img2"
      "pil_save E img2 png_args = Inr b2" "length b2 \<le> 1048576"
      "map_of languages selected_lang = Some code"
    have sb: "size_budget E img =
        ([PilSave img png_args,
          PilResize img (fst (pil_size E img) div 2, snd (pil_size E img) div 2),
          PilSave img2 png_args], Inr b2)"
      using h by (simp add: size_budget_cases)
    show "HttpPost (ocr_request_of b2 code (u ''helloworld''))
          \<in> set (fst (extract_text E img filename selected_lang s))"
      using h(5) h(6) by (rule extract_text_posts [OF sb])
  qed
  have again: "\<forall>b img2. pil_save E img png_args = Inr b \<and> length b > 1048576
        \<and> pil_resize E img (fst (pil_size E img) div 2, snd (pil_size E img) div 2) = Inr img2
        \<longrightarrow> PilSave img2 png_args \<in> set (fst (extract_text E img filename selected_lang s))"
    by (simp add: shape size_budget_cases)
  have args: "sa_optimize png_args \<and> sa_format png_args = u ''PNG''"
    by (simp add: png_args_def)
  from safe one none over sent again args show ?thesis by blast
qed

text \<open>
  The theorem at an image of 4000 by 4000 pixels, whose PNG has 16,000,000 bytes here and
  4,000,000 after the resize: the run ends with the oversize error.
\<close>

theorem oversize_never_reaches_ocr_witness:
  "pil_save sample_env (4000, 4000) png_args = Inr (replicate 16000000 0)
   \<and> pil_resize sample_env (4000, 4000) (2000, 2000) = Inr (2000, 2000)
   \<and> pil_save sample_env (2000, 2000) png_args = Inr (replicate 4000000 0)
   \<and> extract_text sample_env (4000, 4000) (u ''a.png'') (u ''English'') empty_session
      = ([PilSave (4000, 4000) png_args, PilResize (4000, 4000) (2000, 2000),
          PilSave (2000, 2000) png_args, StError too_large_message], empty_session)"
proof -
  have half: "(fst (pil_size sample_env (4000, 4000)) div 2,
               snd (pil_size sample_env (4000, 4000)) div 2) = (2000, 2000)"
    by (simp add: sample_env_def)
  have sv1: "pil_save sample_env (4000, 4000) png_args = Inr (replicate 16000000 0)"
    by (simp add: sample_env_def)
  have rs: "pil_resize sample_env (4000, 4000) (2000, 2000) = Inr (2000, 2000)"
    by (simp add: sample_env_def)
  have sv2: "pil_save sample_env (2000, 2000) png_args = Inr (replicate 4000000 0)"
    by (simp add: sample_env_def)
  have pre: "pil_save sample_env (4000, 4000) png_args = Inr (replicate 16000000 0)
      \<and> length (replicate 16000000 (0 :: byte)) > 1048576
      \<and> pil_resize sample_env (4000, 4000)
          (fst (pil_size sample_env (4000, 4000)) div 2,
           snd (pil_size sample_env (4000, 4000)) div 2) = Inr (2000, 2000)
      \<and> pil_save sample_env (2000, 2000) png_args = Inr (replicate 4000000 0)
      \<and> length (replicate 4000000 (0 :: byte)) > 1048576"
    unfolding half using sv1 rs sv2 by simp
  from oversize_never_reaches_ocr [of sample_env "(4000, 4000)" "u ''a.png''" "u ''English''" empty_session]
  have over: "\<forall>b img2 b2. pil_save sample_env (4000, 4000) png_args = Inr b \<and> length b > 1048576
        \<and> pil_resize sample_env (4000, 4000)
             (fst (pil_size sample_env (4000, 4000)) div 2,
              snd (pil_size sample_env (4000, 4000)) div 2) = Inr img2
        \<and> pil_save sample_env img2 png_args = Inr b2 \<and> length b2 > 1048576 \<longrightarrow>
        extract_text sample_env (4000, 4000) (u ''a.png'') (u ''English'') empty_session
          = ([PilSave (4000, 4000) png_args,
              PilResize (4000, 4000)
                (fst (pil_size sample_env (4000, 4000)) div 2,
                 snd (pil_size sample_env (4000, 4000)) div 2),
              PilSave img2 png_args, StError too_large_message], empty_session)"
    by (rule conjunct1 [OF conjunct2 [OF conjunct2 [OF conjunct2]]])
  from over [rule_format, OF pre]
  have "extract_text sample_env (4000, 4000) (u ''a.png'') (u ''English'') empty_session
      = ([PilSave (4000, 4000) png_args, PilResize (4000, 4000) (2000, 2000),
          PilSave (2000, 2000) png_args, StError too_large_message], empty_session)"
    unfolding half .
  with sv1 rs sv2 show ?thesis by blast
qed

text \<open>
  Claim C2. Let the image fit the budget, the language be in the catalog and the service
  answer with a JSON object. When the value of \<open>IsErroredOnProcessing\<close> is true, the run
  shows one error, \<open>OCR Error: \<close> followed by the \<open>ErrorMessage\<close> (a string message
  unchanged; \<open>Unknown error\<close> when there is none), and leaves the session unchanged. When
  it is not and \<open>ParsedResults\<close> is missing or empty, or the trimmed \<open>ParsedText\<close> of its
  first entry is empty, the run shows the warning \<open>No text found in the image.\<close>, raises no
  exception and leaves the session unchanged. When the trimmed text is not empty, the result
  of the session is the trimmed text, with the selected language and its code; the run then
  shows the success message, unless the share step raises on a surrogate code point, in which
  case it shows the processing error and the share keys of the session stay as they were. And
  in every run whatsoever, a session that differs after the run comes from an answer whose
  first parsed result has a non-empty trimmed text, which is then the result of the session.
\<close>

theorem response_outcomes:
  "(size_budget E img = (ev1, Inr fb) \<and> length fb \<le> 1048576
      \<and> map_of languages selected_lang = Some code
      \<and> requests_post E (ocr_request_of fb code (u ''helloworld'')) = Inr (JObject kv) \<longrightarrow>
    (truthy (dict_get kv (u ''IsErroredOnProcessing'') JNull) \<longrightarrow>
       extract_text E img filename selected_lang s =
         (ev1 @ [StInfo (processing_message selected_lang code),
                 HttpPost (ocr_request_of fb code (u ''helloworld'')),
                 StError (u ''OCR Error: '' @ format_json E
                   (dict_get kv (u ''ErrorMessage'') (JString (u ''Unknown error''))))], s))
    \<and> format_json E (JString m) = m
    \<and> (\<not> truthy (dict_get kv (u ''IsErroredOnProcessing'') JNull)
        \<and> \<not> truthy (dict_get kv (u ''ParsedResults'') (JArray [])) \<longrightarrow>
       extract_text E img filename selected_lang s =
         (ev1 @ [StInfo (processing_message selected_lang code),
                 HttpPost (ocr_request_of fb code (u ''helloworld'')),
                 StWarning no_text_message], s))
    \<and> (\<forall>kv0 rest raw.
        \<not> truthy (dict_get kv (u ''IsErroredOnProcessing'') JNull)
        \<and> dict_get kv (u ''ParsedResults'') (JArray []) = JArray (JObject kv0 # rest)
        \<and> dict_get kv0 (u ''ParsedText'') (JString []) = JString raw
        \<and> strip raw = [] \<longrightarrow>
       extract_text E img filename selected_lang s =
         (ev1 @ [StInfo (processing_message selected_lang code),
                 HttpPost (ocr_request_of fb code (u ''helloworld'')),
                 StWarning no_text_message], s))
    \<and> (\<forall>kv0 rest raw.
        \<not> truthy (dict_get kv (u ''IsErroredOnProcessing'') JNull)
        \<and> dict_get kv (u ''ParsedResults'') (JArray []) = JArray (JObject kv0 # rest)
        \<and> dict_get kv0 (u ''ParsedText'') (JString []) = JString raw
        \<and> strip raw \<noteq> [] \<longrightarrow>
       fst (extract_text E img filename selected_lang s) =
         ev1 @ [StInfo (processing_message selected_lang code),
                HttpPost (ocr_request_of fb code (u ''helloworld'')),
                (if list_all utf8_encodable_ch (strip raw @ selected_lang)
                 then StSuccess (success_message E selected_lang (elapsed E))
                 else StError (processing_error_message E UnicodeEncodeError))]
       \<and> ocr_result (snd (extract_text E img filename selected_lang s)) = Some (strip raw)
       \<and> ocr_language (snd (extract_text E img filename selected_lang s)) = Some selected_lang
       \<and> ocr_language_code (snd (extract_text E img filename selected_lang s)) = Some code
       \<and> (\<not> list_all utf8_encodable_ch (strip raw @ selected_lang) \<longrightarrow>
            share_url (snd (extract_text E img filename selected_lang s)) = share_url s
            \<and> share_id (snd (extract_text E img filename selected_lang s)) = share_id s
            \<and> shared_results (snd (extract_text E img filename selected_lang s))
                = shared_results s)))
   \<and> (snd (extract_text E img filename selected_lang s) \<noteq> s \<longrightarrow>
         (\<exists>fb' code' kv' kv0 rest raw.
            requests_post E (ocr_request_of fb' code' (u ''helloworld'')) = Inr (JObject kv')
            \<and> \<not> truthy (dict_get kv' (u ''IsErroredOnProcessing'') JNull)
            \<and> dict_get kv' (u ''ParsedResults'') (JArray []) = JArray (JObject kv0 # rest)
            \<and> dict_get kv0 (u ''ParsedText'') (JString []) = JString raw
            \<and> strip raw \<noteq> []
            \<and> ocr_result (snd (extract_text E img filename selected_lang s)) = Some (strip raw)))"
proof (rule conjI; rule impI)
  assume "size_budget E img = (ev1, Inr fb) \<and> length fb \<le> 1048576
      \<and> map_of languages selected_lang = Some code
      \<and> requests_post E (ocr_request_of fb code (u ''helloworld'')) = Inr (JObject kv)"
  then have assms: "size_budget E img = (ev1, Inr fb)" "length fb \<le> 1048576"
      "map_of languages selected_lang = Some code"
      "requests_post E (ocr_request_of fb code (u ''helloworld'')) = Inr (JObject kv)"
    by simp_all
  note run = extract_text_run [OF assms, of filename s]
  have err: "truthy (dict_get kv (u ''IsErroredOnProcessing'') JNull) \<longrightarrow>
       extract_text E img filename selected_lang s =
         (ev1 @ [StInfo (processing_message selected_lang code),
                 HttpPost (ocr_request_of fb code (u ''helloworld'')),
                 StError (u ''OCR Error: '' @ format_json E
                   (dict_get kv (u ''ErrorMessage'') (JString (u ''Unknown error''))))], s)"
    using run by (simp add: hr_error)
  have fmt: "format_json E (JString m) = m"
    by (simp add: format_json_def)
  have empty: "\<not> truthy (dict_get kv (u ''IsErroredOnProcessing'') JNull)
        \<and> \<not> truthy (dict_get kv (u ''ParsedResults'') (JArray [])) \<longrightarrow>
       extract_text E img filename selected_lang s =
         (ev1 @ [StInfo (processing_message selected_lang code),
                 HttpPost (ocr_request_of fb code (u ''helloworld'')),
                 StWarning no_text_message], s)"
    using run by (simp add: hr_empty)
  have blank: "\<forall>kv0 rest raw.
        \<not> truthy (dict_get kv (u ''IsErroredOnProcessing'') JNull)
        \<and> dict_get kv (u ''ParsedResults'') (JArray []) = JArray (JObject kv0 # rest)
        \<and> dict_get kv0 (u ''ParsedText'') (JString []) = JString raw
        \<and> strip raw = [] \<longrightarrow>
       extract_text E img filename selected_lang s =
         (ev1 @ [StInfo (processing_message selected_lang code),
                 HttpPost (ocr_request_of fb code (u ''helloworld'')),
                 StWarning no_text_message], s)"
  proof (intro allI impI, elim conjE)
    fix kv0 rest raw
    assume h: "\<not> truthy (dict_get kv (u ''IsErroredOnProcessing'') JNull)"
      "dict_get kv (u ''ParsedResults'') (JArray []) = JArray (JObject kv0 # rest)"
      "dict_get kv0 (u ''ParsedText'') (JString []) = JString raw" "strip raw = []"
    from hr_text [OF h(1) h(2) h(3), of E selected_lang code filename s] h(4)
    have "handle_result E (JObject kv) selected_lang code filename s
        = (Inr [StWarning no_text_message], s)"
      by simp
    with run show "extract_text E img filename selected_lang s =
         (ev1 @ [StInfo (processing_message selected_lang code),
                 HttpPost (ocr_request_of fb code (u ''helloworld'')),
                 StWarning no_text_message], s)"
      by simp
  qed
  have good: "\<forall>kv0 rest raw.
        \<not> truthy (dict_get kv (u ''IsErroredOnProcessing'') JNull)
        \<and> dict_get kv (u ''ParsedResults'') (JArray []) = JArray (JObject kv0 # rest)
        \<and> dict_get kv0 (u ''ParsedText'') (JString []) = JString raw
        \<and> strip raw \<noteq> [] \<longrightarrow>
       fst (extract_text E img filename selected_lang s) =
         ev1 @ [StInfo (processing_message selected_lang code),
                HttpPost (ocr_request_of fb code (u ''helloworld'')),
                (if list_all utf8_encodable_ch (strip raw @ selected_lang)
                 then StSuccess (success_message E selected_lang (elapsed E))
                 else StError (processing_error_message E UnicodeEncodeError))]
       \<and> ocr_result (snd (extract_text E img filename selected_lang s)) = Some (strip raw)
       \<and> ocr_language (snd (extract_text E img filename selected_lang s)) = Some selected_lang
       \<and> ocr_language_code (snd (extract_text E img filename selected_lang s)) = Some code
       \<and> (\<not> list_all utf8_encodable_ch (strip raw @ selected_lang) \<longrightarrow>
            share_url (snd (extract_text E img filename selected_lang s)) = share_url s
            \<and> share_id (snd (extract_text E img filename selected_lang s)) = share_id s
            \<and> shared_results (snd (extract_text E img filename selected_lang s))
                = shared_results s)"
  proof (intro allI impI, elim conjE)
    fix kv0 rest raw
    assume h: "\<not> truthy (dict_get kv (u ''IsErroredOnProcessing'') JNull)"
      "dict_get kv (u ''ParsedResults'') (JArray []) = JArray (JObject kv0 # rest)"
      "dict_get kv0 (u ''ParsedText'') (JString []) = JString raw" "strip raw \<noteq> []"
    from hr_text [OF h(1) h(2) h(3), of E selected_lang code filename s] h(4)
    have hr: "handle_result E (JObject kv) selected_lang code filename s
        = on_success E (strip raw) selected_lang code filename s"
      by simp
    obtain r3 s3 where os: "on_success E (strip raw) selected_lang code filename s = (r3, s3)"
      by (cases "on_success E (strip raw) selected_lang code filename s")
    from on_success_result [of E "strip raw" selected_lang code filename s] os
    have facts: "ocr_result s3 = Some (strip raw)" "ocr_language s3 = Some selected_lang"
      "ocr_language_code s3 = Some code"
      "r3 = (if list_all utf8_encodable_ch (strip raw @ selected_lang)
             then Inr [StSuccess (success_message E selected_lang (elapsed E))]
             else Inl UnicodeEncodeError)"
      "\<not> list_all utf8_encodable_ch (strip raw @ selected_lang) \<longrightarrow>
          share_url s3 = share_url s \<and> share_id s3 = share_id s
          \<and> shared_results s3 = shared_results s"
      by simp_all
    from run hr os have ex: "extract_text E img filename selected_lang s =
       (case r3 of
          Inl e \<Rightarrow> (ev1 @ [StInfo (processing_message selected_lang code),
                          HttpPost (ocr_request_of fb code (u ''helloworld'')),
                          StError (processing_error_message E e)], s3)
        | Inr ev3 \<Rightarrow> (ev1 @ [StInfo (processing_message selected_lang code),
                          HttpPost (ocr_request_of fb code (u ''helloworld''))] @ ev3, s3))"
      by (simp split: sum.splits)
    show "fst (extract_text E img filename selected_lang s) =
         ev1 @ [StInfo (processing_message selected_lang code),
                HttpPost (ocr_request_of fb code (u ''helloworld'')),
                (if list_all utf8_encodable_ch (strip raw @ selected_lang)
                 then StSuccess (success_message E selected_lang (elapsed E))
                 else StError (processing_error_message E UnicodeEncodeError))]
       \<and> ocr_result (snd (extract_text E img filename selected_lang s)) = Some (strip raw)
       \<and> ocr_language (snd (extract_text E img filename selected_lang s)) = Some selected_lang
       \<and> ocr_language_code (snd (extract_text E img filename selected_lang s)) = Some code
       \<and> (\<not> list_all utf8_encodable_ch (strip raw @ selected_lang) \<longrightarrow>
            share_url (snd (extract_text E img filename selected_lang s)) = share_url s
            \<and> share_id (snd (extract_text E img filename selected_lang s)) = share_id s
            \<and> shared_results (snd (extract_text E img filename selected_lang s))
                = shared_results s)"
      unfolding ex facts(4) using facts(1,2,3,5) by simp
  qed
  from err fmt empty blank good
  show "(truthy (dict_get kv (u ''IsErroredOnProcessing'') JNull) \<longrightarrow>
       extract_text E img filename selected_lang s =
         (ev1 @ [StInfo (processing_message selected_lang code),
                 HttpPost (ocr_request_of fb code (u ''helloworld'')),
                 StError (u ''OCR Error: '' @ format_json E
                   (dict_get kv (u ''ErrorMessage'') (JString (u ''Unknown error''))))], s))
    \<and> format_json E (JString m) = m
    \<and> (\<not> truthy (dict_get kv (u ''IsErroredOnProcessing'') JNull)
        \<and> \<not> truthy (dict_get kv (u ''ParsedResults'') (JArray [])) \<longrightarrow>
       extract_text E img filename selected_lang s =
         (ev1 @ [StInfo (processing_message selected_lang code),
                 HttpPost (ocr_request_of fb code (u ''helloworld'')),
                 StWarning no_text_message], s))
    \<and> (\<forall>kv0 rest raw.
        \<not> truthy (dict_get kv (u ''IsErroredOnProcessing'') JNull)
        \<and> dict_get kv (u ''ParsedResults'') (JArray []) = JArray (JObject kv0 # rest)
        \<and> dict_get kv0 (u ''ParsedText'') (JString []) = JString raw
        \<and> strip raw = [] \<longrightarrow>
       extract_text E img filename selected_lang s =
         (ev1 @ [StInfo (processing_message selected_lang code),
                 HttpPost (ocr_request_of fb code (u ''helloworld'')),
                 StWarning no_text_message], s))
    \<and> (\<forall>kv0 rest raw.
        \<not> truthy (dict_get kv (u ''IsErroredOnProcessing'') JNull)
        \<and> dict_get kv (u ''ParsedResults'') (JArray []) = JArray (JObject kv0 # rest)
        \<and> dict_get kv0 (u ''ParsedText'') (JString []) = JString raw
        \<and> strip raw \<noteq> [] \<longrightarrow>
       fst (extract_text E img filename selected_lang s) =
         ev1 @ [StInfo (processing_message selected_lang code),
                HttpPost (ocr_request_of fb code (u ''helloworld'')),
                (if list_all utf8_encodable_ch (strip raw @ selected_lang)
                 then StSuccess (success_message E selected_lang (elapsed E))
                 else StError (processing_error_message E UnicodeEncodeError))]
       \<and> ocr_result (snd (extract_text E img filename selected_lang s)) = Some (strip raw)
       \<and> ocr_language (snd (extract_text E img filename selected_lang s)) = Some selected_lang
       \<and> ocr_language_code (snd (extract_text E img filename selected_lang s)) = Some code
       \<and> (\<not> list_all utf8_encodable_ch (strip raw @ selected_lang) \<longrightarrow>
            share_url (snd (extract_text E img filename selected_lang s)) = share_url s
            \<and> share_id (snd (extract_text E img filename selected_lang s)) = share_id s
            \<and> shared_results (snd (extract_text E img filename selected_lang s))
                = shared_results s))"
    by blast
next
  assume ch: "snd (extract_text E img filename selected_lang s) \<noteq> s"
  from extract_text_changes [OF ch] obtain fb' code' result where
    post: "requests_post E (ocr_request_of fb' code' (u ''helloworld'')) = Inr result"
    and hr: "snd (handle_result E result selected_lang code' filename s)
          = snd (extract_text E img filename selected_lang s)"
    by blast
  from ch hr have ch': "snd (handle_result E result selected_lang code' filename s) \<noteq> s"
    by simp
  from hr_changes [OF ch'] obtain kv' kv0 rest raw where
    r: "result = JObject kv'"
    "\<not> truthy (dict_get kv' (u ''IsErroredOnProcessing'') JNull)"
    "dict_get kv' (u ''ParsedResults'') (JArray []) = JArray (JObject kv0 # rest)"
    "dict_get kv0 (u ''ParsedText'') (JString []) = JString raw"
    "strip raw \<noteq> []"
    "handle_result E result selected_lang code' filename s
        = on_success E (strip raw) selected_lang code' filename s"
    by blast
  from r(6) hr on_success_result [of E "strip raw" selected_lang code' filename s]
  have "ocr_result (snd (extract_text E img filename selected_lang s)) = Some (strip raw)"
    by simp
  with post r show "\<exists>fb' code' kv' kv0 rest raw.
          requests_post E (ocr_request_of fb' code' (u ''helloworld'')) = Inr (JObject kv')
          \<and> \<not> truthy (dict_get kv' (u ''IsErroredOnProcessing'') JNull)
          \<and> dict_get kv' (u ''ParsedResults'') (JArray []) = JArray (JObject kv0 # rest)
          \<and> dict_get kv0 (u ''ParsedText'') (JString []) = JString raw
          \<and> strip raw \<noteq> []
          \<and> ocr_result (snd (extract_text E img filename selected_lang s)) = Some (strip raw)"
    by blast
qed

text \<open>
  The theorem at a service that answers with the error \<open>Bad image\<close>, at one that reads the
  text \<open>Hi\<close>, surrounded by blanks, and at one that reads the surrogate code point U+D800:
  there the result of the session is written, the run ends with the processing error, and
  no share URL is set.
\<close>

theorem response_outcomes_witness:
  "size_budget failing_env (10, 10) = ([PilSave (10, 10) png_args], Inr (replicate 100 0))
   \<and> map_of languages (u ''English'') = Some (u ''eng'')
   \<and> requests_post failing_env (ocr_request_of (replicate 100 0) (u ''eng'') (u ''helloworld''))
       = Inr bad_image_response
   \<and> extract_text failing_env (10, 10) (u ''a.png'') (u ''English'') empty_session
       = ([PilSave (10, 10) png_args, StInfo (processing_message (u ''English'') (u ''eng'')),
           HttpPost (ocr_request_of (replicate 100 0) (u ''eng'') (u ''helloworld'')),
           StError (u ''OCR Error: Bad image'')], empty_session)
   \<and> fst (extract_text reading_env (10, 10) (u ''a.png'') (u ''English'') empty_session)
       = [PilSave (10, 10) png_args, StInfo (processing_message (u ''English'') (u ''eng'')),
          HttpPost (ocr_request_of (replicate 100 0) (u ''eng'') (u ''helloworld'')),
          StSuccess (success_message reading_env (u ''English'') (elapsed reading_env))]
   \<and> ocr_result (snd (extract_text reading_env (10, 10) (u ''a.png'') (u ''English'')
         empty_session)) = Some (u ''Hi'')
   \<and> snd (extract_text reading_env (10, 10) (u ''a.png'') (u ''English'') empty_session)
       \<noteq> empty_session
   \<and> fst (extract_text surrogate_env (10, 10) (u ''a.png'') (u ''English'') empty_session)
       = [PilSave (10, 10) png_args, StInfo (processing_message (u ''English'') (u ''eng'')),
          HttpPost (ocr_request_of (replicate 100 0) (u ''eng'') (u ''helloworld'')),
          StError (processing_error_message surrogate_env UnicodeEncodeError)]
   \<and> ocr_result (snd (extract_text surrogate_env (10, 10) (u ''a.png'') (u ''English'')
         empty_session)) = Some [55296]
   \<and> share_url (snd (extract_text surrogate_env (10, 10) (u ''a.png'') (u ''English'')
         empty_session)) = None"
proof -
  let ?errkv = "[(u ''IsErroredOnProcessing'', JBool True), (u ''ErrorMessage'', JString (u ''Bad image''))]"
  let ?inner = "[(u ''ParsedText'', JString (u '' Hi ''))]"
  let ?outer = "[(u ''ParsedResults'', JArray [JObject ?inner])]"
  let ?sinner = "[(u ''ParsedText'', JString [55296])]"
  let ?souter = "[(u ''ParsedResults'', JArray [JObject ?sinner])]"
  have sb: "size_budget failing_env (10, 10) = ([PilSave (10, 10) png_args], Inr (replicate 100 0))"
    by (simp add: size_budget_def failing_env_def sample_env_def)
  have sb2: "size_budget reading_env (10, 10) = ([PilSave (10, 10) png_args], Inr (replicate 100 0))"
    by (simp add: size_budget_def reading_env_def sample_env_def)
  have sb3: "size_budget surrogate_env (10, 10) = ([PilSave (10, 10) png_args], Inr (replicate 100 0))"
    by (simp add: size_budget_def surrogate_env_def sample_env_def)
  have len: "length (replicate 100 (0 :: byte)) \<le> 1048576"
    by simp
  have lang: "map_of languages (u ''English'') = Some (u ''eng'')"
    by (simp add: languages_def)
  have p1: "requests_post failing_env rq = Inr bad_image_response" for rq
    by (simp add: failing_env_def)
  have p2: "bad_image_response = JObject ?errkv"
    by (simp add: bad_image_response_def)
  have post: "requests_post failing_env (ocr_request_of (replicate 100 0) (u ''eng'') (u ''helloworld''))
       = Inr (JObject ?errkv)"
    unfolding p1 p2 ..
  have post2: "requests_post reading_env (ocr_request_of (replicate 100 0) (u ''eng'') (u ''helloworld''))
       = Inr (JObject ?outer)"
    by (simp add: reading_env_def)
  have post3: "requests_post surrogate_env (ocr_request_of (replicate 100 0) (u ''eng'') (u ''helloworld''))
       = Inr (JObject ?souter)"
    by (simp add: surrogate_env_def)
  have flag: "truthy (dict_get ?errkv (u ''IsErroredOnProcessing'') JNull)"
    by (simp add: dict_get_def)
  have msg: "dict_get ?errkv (u ''ErrorMessage'') (JString (u ''Unknown error'')) = JString (u ''Bad image'')"
    by (simp add: dict_get_def u_def)
  have cat: "u ''OCR Error: '' @ u ''Bad image'' = u ''OCR Error: Bad image''"
    by (simp add: u_def)
  have flag2: "\<not> truthy (dict_get ?outer (u ''IsErroredOnProcessing'') JNull)"
    by (simp add: dict_get_def u_def)
  have pr: "dict_get ?outer (u ''ParsedResults'') (JArray []) = JArray (JObject ?inner # [])"
    by (simp add: dict_get_def)
  have pt: "dict_get ?inner (u ''ParsedText'') (JString []) = JString (u '' Hi '')"
    by (simp add: dict_get_def)
  have st: "strip (u '' Hi '') = u ''Hi''"
    by (simp add: strip_def u_def isspace_ch_def)
  have ne: "u ''Hi'' \<noteq> []"
    by (simp add: u_def)
  have enc: "list_all utf8_encodable_ch (u ''Hi'' @ u ''English'')"
    by (simp add: u_def utf8_encodable_ch_def)
  have flag3: "\<not> truthy (dict_get ?souter (u ''IsErroredOnProcessing'') JNull)"
    by (simp add: dict_get_def u_def)
  have pr3: "dict_get ?souter (u ''ParsedResults'') (JArray []) = JArray (JObject ?sinner # [])"
    by (simp add: dict_get_def)
  have pt3: "dict_get ?sinner (u ''ParsedText'') (JString []) = JString [55296]"
    by (simp add: dict_get_def)
  have st3: "strip [55296] = [55296]"
    by (simp add: strip_def isspace_ch_def)
  have ne3: "strip [55296] \<noteq> []"
    by (simp add: st3)
  have nenc: "\<not> list_all utf8_encodable_ch ([55296] @ u ''English'')"
    by (simp add: utf8_encodable_ch_def)
  have su: "share_url empty_session = None"
    by (simp add: empty_session_def)
  from conjunct1 [OF response_outcomes [of failing_env "(10, 10)" "[PilSave (10, 10) png_args]"
       "replicate 100 0" "u ''English''" "u ''eng''" ?errkv "u ''a.png''" empty_session
       "u ''Bad image''"]]
    sb len lang post flag
  have "extract_text failing_env (10, 10) (u ''a.png'') (u ''English'') empty_session
       = ([PilSave (10, 10) png_args] @ [StInfo (processing_message (u ''English'') (u ''eng'')),
           HttpPost (ocr_request_of (replicate 100 0) (u ''eng'') (u ''helloworld'')),
           StError (u ''OCR Error: '' @ format_json failing_env
             (dict_get ?errkv (u ''ErrorMessage'') (JString (u ''Unknown error''))))], empty_session)"
    by blast
  then have r1: "extract_text failing_env (10, 10) (u ''a.png'') (u ''English'') empty_session
       = ([PilSave (10, 10) png_args, StInfo (processing_message (u ''English'') (u ''eng'')),
           HttpPost (ocr_request_of (replicate 100 0) (u ''eng'') (u ''helloworld'')),
           StError (u ''OCR Error: Bad image'')], empty_session)"
    unfolding msg by (simp add: format_json_def cat)
  from conjunct1 [OF response_outcomes [of reading_env "(10, 10)" "[PilSave (10, 10) png_args]"
       "replicate 100 0" "u ''English''" "u ''eng''" ?outer "u ''a.png''" empty_session
       "u ''Bad image''"]]
    sb2 len lang post2 flag2 pr pt ne
  have good: "fst (extract_text reading_env (10, 10) (u ''a.png'') (u ''English'') empty_session) =
         [PilSave (10, 10) png_args] @ [StInfo (processing_message (u ''English'') (u ''eng'')),
                HttpPost (ocr_request_of (replicate 100 0) (u ''eng'') (u ''helloworld'')),
                (if list_all utf8_encodable_ch (strip (u '' Hi '') @ u ''English'')
                 then StSuccess (success_message reading_env (u ''English'') (elapsed reading_env))
                 else StError (processing_error_message reading_env UnicodeEncodeError))]
       \<and> ocr_result (snd (extract_text reading_env (10, 10) (u ''a.png'') (u ''English'')
            empty_session)) = Some (strip (u '' Hi ''))"
    unfolding st [symmetric] by blast
  from good have r2a: "fst (extract_text reading_env (10, 10) (u ''a.png'') (u ''English'')
        empty_session)
       = [PilSave (10, 10) png_args, StInfo (processing_message (u ''English'') (u ''eng'')),
          HttpPost (ocr_request_of (replicate 100 0) (u ''eng'') (u ''helloworld'')),
          StSuccess (success_message reading_env (u ''English'') (elapsed reading_env))]"
    unfolding st using enc by simp
  from good have r2: "ocr_result (snd (extract_text reading_env (10, 10) (u ''a.png'')
         (u ''English'') empty_session)) = Some (u ''Hi'')"
    unfolding st by blast
  then have r3: "snd (extract_text reading_env (10, 10) (u ''a.png'') (u ''English'') empty_session)
       \<noteq> empty_session"
    by (auto simp add: empty_session_def)
  from conjunct1 [OF response_outcomes [of surrogate_env "(10, 10)" "[PilSave (10, 10) png_args]"
       "replicate 100 0" "u ''English''" "u ''eng''" ?souter "u ''a.png''" empty_session
       "u ''Bad image''"]]
    sb3 len lang post3 flag3 pr3 pt3 ne3
  have bad: "fst (extract_text surrogate_env (10, 10) (u ''a.png'') (u ''English'') empty_session) =
         [PilSave (10, 10) png_args] @ [StInfo (processing_message (u ''English'') (u ''eng'')),
                HttpPost (ocr_request_of (replicate 100 0) (u ''eng'') (u ''helloworld'')),
                (if list_all utf8_encodable_ch (strip [55296] @ u ''English'')
                 then StSuccess (success_message surrogate_env (u ''English'') (elapsed surrogate_env))
                 else StError (processing_error_message surrogate_env UnicodeEncodeError))]
       \<and> ocr_result (snd (extract_text surrogate_env (10, 10) (u ''a.png'') (u ''English'')
            empty_session)) = Some (strip [55296])
       \<and> (\<not> list_all utf8_encodable_ch (strip [55296] @ u ''English'') \<longrightarrow>
            share_url (snd (extract_text surrogate_env (10, 10) (u ''a.png'') (u ''English'')
              empty_session)) = share_url empty_session)"
    by blast
  from bad nenc su have r4: "fst (extract_text surrogate_env (10, 10) (u ''a.png'') (u ''English'')
        empty_session)
       = [PilSave (10, 10) png_args, StInfo (processing_message (u ''English'') (u ''eng'')),
          HttpPost (ocr_request_of (replicate 100 0) (u ''eng'') (u ''helloworld'')),
          StError (processing_error_message surrogate_env UnicodeEncodeError)]"
    and r5: "ocr_result (snd (extract_text surrogate_env (10, 10) (u ''a.png'') (u ''English'')
         empty_session)) = Some [55296]"
    and r6: "share_url (snd (extract_text surrogate_env (10, 10) (u ''a.png'') (u ''English'')
         empty_session)) = None"
    unfolding st3 by simp_all
  from sb lang post r1 r2a r2 r3 r4 r5 r6 show ?thesis
    unfolding p2 by blast
qed

end
